theory Spec2Isabelle
  imports Complex_Main "HOL-Library.Monad_Syntax"
begin

section \<open>Webhook dispatcher (server/webhooks.ts)\<close>

text \<open>
  \<^verbatim>\<open>WebhookOptions\<close> as the interface declares it. The optional fields are
  \<open>option\<close>s; \<open>maxRetries\<close> is a JavaScript number, modelled for integral values.
\<close>

record WebhookOptions =
  url :: string
  body :: string
  secret :: string
  maxRetries :: "int option"
  idempotencyKey :: "string option"
  testMode :: "bool option"

text \<open>The request handed to \<^verbatim>\<open>fetch\<close>: URL, method, headers in insertion order, body.\<close>

record http_request =
  req_url :: string
  req_method :: string
  req_headers :: "(string \<times> string) list"
  req_body :: string

text \<open>
  What one \<^verbatim>\<open>await fetch(...)\<close> does: it resolves to a response with a status
  code, or it rejects (connection refused, DNS failure, ...), which the loop's
  \<^verbatim>\<open>catch\<close> receives.
\<close>

datatype fetch_outcome = Response nat | Rejects

text \<open>\<^verbatim>\<open>res.ok\<close>: the status is in the range 200-299.\<close>

definition res_ok :: "nat \<Rightarrow> bool" where
  "res_ok st \<longleftrightarrow> 200 \<le> st \<and> st \<le> 299"

text \<open>The value the promise of \<^verbatim>\<open>sendSignedWebhook\<close> resolves to.\<close>

record delivery_result =
  success :: bool
  status :: nat

text \<open>What a dispatch does to the outside world, in order: requests and suspensions.\<close>

datatype effect = Fetch http_request | Sleep nat

text \<open>
  \<^verbatim>\<open>computeSignature\<close>. The HMAC-SHA256 of Node's crypto module, rendered in hex, is a
  parameter \<open>hmac\<close> (key, then message).
\<close>

definition computeSignature :: "(string \<Rightarrow> string \<Rightarrow> string) \<Rightarrow> string \<Rightarrow> string \<Rightarrow> string" where
  "computeSignature hmac sec payload = ''sha256='' @ hmac sec payload"

text \<open>\<^verbatim>\<open>String(n)\<close> and \<^verbatim>\<open>n.toString()\<close> on a natural number: its decimal digits.\<close>

definition digit_char :: "nat \<Rightarrow> char" where
  "digit_char d = ''0123456789'' ! d"

function js_String :: "nat \<Rightarrow> string" where
  "js_String n = (if n < 10 then [digit_char n] else js_String (n div 10) @ [digit_char (n mod 10)])"
  by pat_completeness auto
termination
  by (relation "measure (\<lambda>n. n)") auto

declare js_String.simps [simp del]

definition baseDelay :: nat where
  "baseDelay = 1000"

text \<open>
  The delay of lines 53 and 58, \<^verbatim>\<open>Math.min(30000, baseDelay * 2 ** attempt + jitter)\<close>,
  where \<open>attempt\<close> is the counter after its increment and \<open>jitter\<close> is the value of
  \<^verbatim>\<open>Math.floor(Math.random() * 300)\<close>.
\<close>

definition backoff_delay :: "nat \<Rightarrow> nat \<Rightarrow> nat" where
  "backoff_delay attempt jitter = min 30000 (baseDelay * 2 ^ attempt + jitter)"

text \<open>The headers object of lines 30-37 and the \<^verbatim>\<open>fetch\<close> arguments of lines 39-44.\<close>

definition build_headers :: "WebhookOptions \<Rightarrow> string \<Rightarrow> string \<Rightarrow> nat \<Rightarrow> (string \<times> string) list" where
  "build_headers opts signature timestamp attempt =
     [(''Content-Type'', ''application/json''),
      (''X-Gateway-Signature'', signature),
      (''X-Gateway-Timestamp'', timestamp),
      (''X-Gateway-Retry-Count'', js_String attempt)]
     @ (case idempotencyKey opts of
          None \<Rightarrow> []
        | Some k \<Rightarrow> if k = [] then [] else [(''X-Gateway-Idempotency-Key'', k)])
     @ (if testMode opts = Some True then [(''X-Gateway-Test-Mode'', ''true'')] else [])"

definition build_request :: "WebhookOptions \<Rightarrow> string \<Rightarrow> string \<Rightarrow> nat \<Rightarrow> http_request" where
  "build_request opts signature timestamp attempt =
     \<lparr>req_url = url opts, req_method = ''POST'',
      req_headers = build_headers opts signature timestamp attempt,
      req_body = body opts\<rparr>"

definition prepend :: "effect list \<Rightarrow> delivery_result \<times> effect list \<Rightarrow> delivery_result \<times> effect list" where
  "prepend es p = (fst p, es @ snd p)"

text \<open>
  The \<^verbatim>\<open>while (attempt <= maxRetries)\<close> loop. \<open>fetch k req\<close> is the outcome of the
  request \<open>req\<close> sent as the \<open>k\<close>-th call of \<^verbatim>\<open>fetch\<close> (counting from 0), and
  \<open>random k\<close> the jitter drawn after the \<open>k\<close>-th call failed. Both failure branches (a
  response that is not ok, and the \<^verbatim>\<open>catch\<close>) increment, draw, compute the delay and
  sleep. The result comes with the list of effects performed.
\<close>

function attempt_loop ::
  "(nat \<Rightarrow> http_request \<Rightarrow> fetch_outcome) \<Rightarrow> (nat \<Rightarrow> nat) \<Rightarrow> WebhookOptions \<Rightarrow> int \<Rightarrow>
   string \<Rightarrow> string \<Rightarrow> nat \<Rightarrow> delivery_result \<times> effect list" where
  "attempt_loop fetch random opts maxR timestamp signature attempt =
     (if int attempt \<le> maxR then
        (case fetch attempt (build_request opts signature timestamp attempt) of
           Response st \<Rightarrow>
             if res_ok st then
               (\<lparr>success = True, status = st\<rparr>,
                [Fetch (build_request opts signature timestamp attempt)])
             else
               prepend [Fetch (build_request opts signature timestamp attempt),
                        Sleep (backoff_delay (attempt + 1) (random attempt))]
                 (attempt_loop fetch random opts maxR timestamp signature (attempt + 1))
         | Rejects \<Rightarrow>
               prepend [Fetch (build_request opts signature timestamp attempt),
                        Sleep (backoff_delay (attempt + 1) (random attempt))]
                 (attempt_loop fetch random opts maxR timestamp signature (attempt + 1)))
      else (\<lparr>success = False, status = 0\<rparr>, []))"
  by pat_completeness auto
termination
  by (relation "measure (\<lambda>(fetch, random, opts, maxR, timestamp, signature, attempt).
        nat (maxR + 1 - int attempt))") auto

declare attempt_loop.simps [simp del]

text \<open>
  \<^verbatim>\<open>sendSignedWebhook\<close>. \<open>now\<close> is the value of \<^verbatim>\<open>Date.now()\<close> (milliseconds), read
  once at line 25; the signature is computed at line 26; then the loop starts at 0.
\<close>

definition sendSignedWebhook ::
  "(string \<Rightarrow> string \<Rightarrow> string) \<Rightarrow> nat \<Rightarrow> (nat \<Rightarrow> http_request \<Rightarrow> fetch_outcome) \<Rightarrow> (nat \<Rightarrow> nat) \<Rightarrow>
   WebhookOptions \<Rightarrow> delivery_result \<times> effect list" where
  "sendSignedWebhook hmac now fetch random opts =
     (let maxR = (case maxRetries opts of None \<Rightarrow> 5 | Some m \<Rightarrow> m);
          timestamp = js_String (now div 1000);
          signature = computeSignature hmac (secret opts) (body opts)
      in attempt_loop fetch random opts maxR timestamp signature 0)"

text \<open>Reading the effects of a dispatch.\<close>

fun fetches :: "effect list \<Rightarrow> http_request list" where
  "fetches [] = []"
| "fetches (Fetch r # es) = r # fetches es"
| "fetches (Sleep d # es) = fetches es"

fun sleeps :: "effect list \<Rightarrow> nat list" where
  "sleeps [] = []"
| "sleeps (Fetch r # es) = sleeps es"
| "sleeps (Sleep d # es) = d # sleeps es"

definition accepted :: "fetch_outcome \<Rightarrow> bool" where
  "accepted out = (case out of Response st \<Rightarrow> res_ok st | Rejects \<Rightarrow> False)"

definition header :: "string \<Rightarrow> http_request \<Rightarrow> string option" where
  "header name req = map_of (req_headers req) name"

text \<open>
  The request that attempt \<open>k\<close> of a dispatch sends: the signature and the timestamp are
  the values computed before the loop.
\<close>

definition dispatch_request :: "(string \<Rightarrow> string \<Rightarrow> string) \<Rightarrow> nat \<Rightarrow> WebhookOptions \<Rightarrow> nat \<Rightarrow> http_request" where
  "dispatch_request hmac now opts k =
     build_request opts (computeSignature hmac (secret opts) (body opts)) (js_String (now div 1000)) k"

text \<open>A dispatch as the process-payment route issues it, with the default \<open>maxRetries\<close>.\<close>

definition example_opts :: WebhookOptions where
  "example_opts = \<lparr>url = ''http://localhost:6000/webhook'', body = ''{}'', secret = ''test_secret'',
     maxRetries = None, idempotencyKey = Some ''TXN_1'', testMode = Some True\<rparr>"

section \<open>Request bodies and schemas (shared/schema.ts)\<close>

text \<open>
  A parsed JSON request body (\<^verbatim>\<open>req.body\<close>). An object is the list of its properties,
  with distinct keys. Numbers are the finite values of JavaScript numbers, taken as reals;
  the rounding of floating-point arithmetic is not modelled.
\<close>

datatype json =
  JNull | JBool bool | JNum real | JStr string | JArr "json list" | JObj "(string \<times> json) list"

text \<open>
  The zod checks the schemas use. Each takes the value of a property, \<open>None\<close> when the
  property is absent, and returns \<open>None\<close> when the check fails.
\<close>

definition z_string :: "json option \<Rightarrow> string option" where
  "z_string v = (case v of Some (JStr s) \<Rightarrow> Some s | _ \<Rightarrow> None)"

definition z_number :: "json option \<Rightarrow> real option" where
  "z_number v = (case v of Some (JNum r) \<Rightarrow> Some r | _ \<Rightarrow> None)"

definition z_boolean :: "json option \<Rightarrow> bool option" where
  "z_boolean v = (case v of Some (JBool b) \<Rightarrow> Some b | _ \<Rightarrow> None)"

definition z_object :: "json option \<Rightarrow> (string \<times> json) list option" where
  "z_object v = (case v of Some (JObj fs) \<Rightarrow> Some fs | _ \<Rightarrow> None)"

definition z_optional :: "(json option \<Rightarrow> 'a option) \<Rightarrow> json option \<Rightarrow> 'a option option" where
  "z_optional p v = (case v of None \<Rightarrow> Some None | Some x \<Rightarrow> map_option Some (p v))"

definition z_enum :: "string list \<Rightarrow> json option \<Rightarrow> string option" where
  "z_enum vs v = (case z_string v of Some s \<Rightarrow> if s \<in> set vs then Some s else None | None \<Rightarrow> None)"

definition z_check :: "bool \<Rightarrow> unit option" where
  "z_check b = (if b then Some () else None)"

record CardDetails =
  cardNumber :: string
  expiry :: string
  cvv :: string
  cardHolderName :: string

definition cardDetailsSchema :: "json option \<Rightarrow> CardDetails option" where
  "cardDetailsSchema v = do {
     fs \<leftarrow> z_object v;
     n \<leftarrow> z_string (map_of fs ''cardNumber'');
     e \<leftarrow> z_string (map_of fs ''expiry'');
     c \<leftarrow> z_string (map_of fs ''cvv'');
     h \<leftarrow> z_string (map_of fs ''cardHolderName'');
     Some \<lparr>cardNumber = n, expiry = e, cvv = c, cardHolderName = h\<rparr>
   }"

text \<open>\<^verbatim>\<open>ProcessPaymentInput\<close>, the output of \<^verbatim>\<open>processPaymentSchema\<close>.\<close>

record ProcessPaymentInput =
  orderId :: string
  amount :: real
  paymentMethod :: string
  bankAccountId :: "string option"
  cardDetails :: "CardDetails option"
  upiId :: "string option"

definition processPaymentSchema :: "json \<Rightarrow> ProcessPaymentInput option" where
  "processPaymentSchema b = do {
     fs \<leftarrow> z_object (Some b);
     oid \<leftarrow> z_string (map_of fs ''orderId'');
     amt \<leftarrow> z_number (map_of fs ''amount'');
     pm \<leftarrow> z_enum [''card'', ''upi'', ''netbanking''] (map_of fs ''paymentMethod'');
     ba \<leftarrow> z_optional z_string (map_of fs ''bankAccountId'');
     cd \<leftarrow> z_optional cardDetailsSchema (map_of fs ''cardDetails'');
     up \<leftarrow> z_optional z_string (map_of fs ''upiId'');
     Some \<lparr>orderId = oid, amount = amt, paymentMethod = pm, bankAccountId = ba,
           cardDetails = cd, upiId = up\<rparr>
   }"

record Customer =
  customer_id :: string
  customer_name :: "string option"
  customer_email :: "string option"
  customer_phone :: "string option"

definition customerSchema :: "json option \<Rightarrow> Customer option" where
  "customerSchema v = do {
     fs \<leftarrow> z_object v;
     i \<leftarrow> z_string (map_of fs ''customer_id'');
     n \<leftarrow> z_optional z_string (map_of fs ''name'');
     e \<leftarrow> z_optional z_string (map_of fs ''email'');
     p \<leftarrow> z_optional z_string (map_of fs ''phone'');
     Some \<lparr>customer_id = i, customer_name = n, customer_email = e, customer_phone = p\<rparr>
   }"

record Plan =
  plan_id :: string
  plan_name :: "string option"

definition planSchema :: "json option \<Rightarrow> Plan option" where
  "planSchema v = do {
     fs \<leftarrow> z_object v;
     i \<leftarrow> z_string (map_of fs ''plan_id'');
     n \<leftarrow> z_optional z_string (map_of fs ''name'');
     Some \<lparr>plan_id = i, plan_name = n\<rparr>
   }"

text \<open>
  \<^verbatim>\<open>CreateOrderV2\<close>, the output of \<^verbatim>\<open>createOrderV2Schema\<close>; the fields carry the prefix
  \<open>in_\<close> to keep them apart from those of the stored order.
\<close>

record CreateOrderV2 =
  in_merchant_id :: string
  in_order_id :: string
  in_one_time_order_token :: "string option"
  in_amount_in_paisa :: int
  in_currency :: string
  in_display_amount :: "string option"
  in_customer :: "Customer option"
  in_plan :: "Plan option"
  in_return_url :: string
  in_callback_url :: string
  in_test_mode :: "bool option"
  in_metadata :: "(string \<times> json) list option"
  in_idempotency_key :: "string option"

text \<open>
  \<^verbatim>\<open>createOrderV2Schema\<close>. The check behind \<^verbatim>\<open>z.string().url()\<close> belongs to the zod
  library and is the parameter \<open>zod_url\<close>.
\<close>

definition createOrderV2Schema :: "(string \<Rightarrow> bool) \<Rightarrow> json \<Rightarrow> CreateOrderV2 option" where
  "createOrderV2Schema zod_url b = do {
     fs \<leftarrow> z_object (Some b);
     mid \<leftarrow> z_string (map_of fs ''merchant_id'');
     oid \<leftarrow> z_string (map_of fs ''order_id'');
     tok \<leftarrow> z_optional z_string (map_of fs ''one_time_order_token'');
     _ \<leftarrow> z_check (case tok of None \<Rightarrow> True | Some t \<Rightarrow> 32 \<le> length t \<and> length t \<le> 128);
     amt \<leftarrow> z_number (map_of fs ''amount_in_paisa'');
     _ \<leftarrow> z_check (of_int \<lfloor>amt\<rfloor> = amt \<and> 0 < amt);
     cur \<leftarrow> z_optional z_string (map_of fs ''currency'');
     disp \<leftarrow> z_optional z_string (map_of fs ''display_amount'');
     cust \<leftarrow> z_optional customerSchema (map_of fs ''customer'');
     pl \<leftarrow> z_optional planSchema (map_of fs ''plan'');
     ru \<leftarrow> z_string (map_of fs ''return_url'');
     _ \<leftarrow> z_check (zod_url ru);
     cu \<leftarrow> z_string (map_of fs ''callback_url'');
     _ \<leftarrow> z_check (zod_url cu);
     tm \<leftarrow> z_optional z_boolean (map_of fs ''test_mode'');
     md \<leftarrow> z_optional z_object (map_of fs ''metadata'');
     ik \<leftarrow> z_optional z_string (map_of fs ''idempotency_key'');
     Some \<lparr>in_merchant_id = mid, in_order_id = oid, in_one_time_order_token = tok,
           in_amount_in_paisa = \<lfloor>amt\<rfloor>,
           in_currency = (case cur of None \<Rightarrow> ''INR'' | Some c \<Rightarrow> c),
           in_display_amount = disp, in_customer = cust, in_plan = pl,
           in_return_url = ru, in_callback_url = cu, in_test_mode = tm,
           in_metadata = md, in_idempotency_key = ik\<rparr>
   }"

section \<open>In-memory storage (server/storage.ts)\<close>

record BankAccount =
  ba_id :: string
  accountHolderName :: string
  accountNumber :: string
  bankName :: string
  balance :: real

record Order =
  ord_id :: string
  ord_name :: string
  ord_email :: string
  ord_phone :: string
  ord_amount :: real

record Transaction =
  txn_id :: string
  txn_orderId :: string
  txn_amount :: real
  txn_paymentMethod :: string
  txn_bankAccountId :: "string option"
  txn_bankName :: "string option"
  txn_status :: string
  txn_failureReason :: "string option"
  txn_timestamp :: string

text \<open>
  The object \<^verbatim>\<open>createOrderV2\<close> stores, with the two properties the process-payment route
  adds later (\<open>paid_at\<close>, \<open>transaction_id\<close>). The property \<^verbatim>\<open>status\<close> is \<open>v2_status\<close>.
\<close>

record V2Order =
  gateway_order_id :: string
  merchant_id :: string
  merchant_order_id :: string
  one_time_order_token :: string
  amount_in_paisa :: int
  currency :: string
  display_amount :: "string option"
  customer :: "Customer option"
  plan :: "Plan option"
  return_url :: string
  callback_url :: string
  test_mode :: bool
  metadata :: "(string \<times> json) list option"
  idempotency_key :: "string option"
  v2_status :: string
  created_at :: string
  paid_at :: "string option"
  transaction_id :: "string option"

text \<open>The four maps of \<^verbatim>\<open>MemStorage\<close>.\<close>

record MemStorage =
  bankAccounts :: "string \<rightharpoonup> BankAccount"
  orders :: "string \<rightharpoonup> Order"
  v2orders :: "string \<rightharpoonup> V2Order"
  transactions :: "string \<rightharpoonup> Transaction"

text \<open>\<^verbatim>\<open>toUpperCase\<close> on the ASCII letters (identifiers and method names are ASCII).\<close>

definition toUpperCase_char :: "char \<Rightarrow> char" where
  "toUpperCase_char c =
     (case map_of (zip ''abcdefghijklmnopqrstuvwxyz'' ''ABCDEFGHIJKLMNOPQRSTUVWXYZ'') c of
        Some u \<Rightarrow> u | None \<Rightarrow> c)"

definition toUpperCase :: "string \<Rightarrow> string" where
  "toUpperCase s = map toUpperCase_char s"

definition updateBankAccountBalance :: "MemStorage \<Rightarrow> string \<Rightarrow> real \<Rightarrow> MemStorage" where
  "updateBankAccountBalance st i newBalance =
     (case bankAccounts st i of
        Some account \<Rightarrow> st\<lparr>bankAccounts := (bankAccounts st)(i \<mapsto> account\<lparr>balance := newBalance\<rparr>)\<rparr>
      | None \<Rightarrow> st)"

text \<open>
  \<^verbatim>\<open>createTransaction\<close>: \<open>uuid\<close> is the value of \<^verbatim>\<open>randomUUID()\<close>; the transaction data
  come with an empty \<open>txn_id\<close>, which is set here.
\<close>

definition createTransaction :: "string \<Rightarrow> MemStorage \<Rightarrow> Transaction \<Rightarrow> Transaction \<times> MemStorage" where
  "createTransaction uuid st transactionData =
     (let i = ''TXN_'' @ toUpperCase (take 12 uuid);
          transaction = transactionData\<lparr>txn_id := i\<rparr>
      in (transaction, st\<lparr>transactions := (transactions st)(i \<mapsto> transaction)\<rparr>))"

text \<open>
  What \<^verbatim>\<open>createOrderV2\<close> reads from outside: the UUID of the order id, the UUID of the
  token (drawn only when the request carries no token) and the clock.
\<close>

record v2_env =
  uuid_order :: string
  uuid_token :: string
  now_created :: string

record CreatedV2 =
  cr_gateway_order_id :: string
  cr_one_time_order_token :: string
  cr_redirect_url :: string

definition createOrderV2 :: "v2_env \<Rightarrow> MemStorage \<Rightarrow> CreateOrderV2 \<Rightarrow> CreatedV2 \<times> MemStorage" where
  "createOrderV2 env st ord =
     (let gatewayOrderId = ''gw_'' @ take 8 (uuid_order env);
          token = (case in_one_time_order_token ord of
                     Some t \<Rightarrow> t
                   | None \<Rightarrow> ''ott_'' @ take 40 (filter (\<lambda>c. c \<noteq> CHR ''-'') (uuid_token env)));
          stored = \<lparr>gateway_order_id = gatewayOrderId,
                    merchant_id = in_merchant_id ord,
                    merchant_order_id = in_order_id ord,
                    one_time_order_token = token,
                    amount_in_paisa = in_amount_in_paisa ord,
                    currency = (if in_currency ord = [] then ''INR'' else in_currency ord),
                    display_amount = in_display_amount ord,
                    customer = in_customer ord,
                    plan = in_plan ord,
                    return_url = in_return_url ord,
                    callback_url = in_callback_url ord,
                    test_mode = (in_test_mode ord = Some True),
                    metadata = in_metadata ord,
                    idempotency_key = in_idempotency_key ord,
                    v2_status = ''CREATED'',
                    created_at = now_created env,
                    paid_at = None,
                    transaction_id = None\<rparr>
      in (\<lparr>cr_gateway_order_id = gatewayOrderId,
           cr_one_time_order_token = token,
           cr_redirect_url = ''https://localhost:5000/checkout?gw_order='' @ gatewayOrderId\<rparr>,
          st\<lparr>v2orders := (v2orders st)(gatewayOrderId \<mapsto> stored)\<rparr>))"

section \<open>Routes (server/routes.ts)\<close>

text \<open>
  The JSON a route answers with, next to the HTTP status code. \<open>ValidationFailedJson\<close> is
  \<^verbatim>\<open>{error: "Validation failed", details: ...}\<close>; \<open>ErrorJson e\<close> is \<^verbatim>\<open>{error: e}\<close>;
  \<open>ErrorMessageJson e m\<close> is \<^verbatim>\<open>{error: e, message: m}\<close>; \<open>OrderV2Json\<close> carries
  \<open>gateway_order_id\<close>, \<open>redirect_url\<close>, \<open>one_time_order_token\<close> and \<open>test_mode\<close>.
\<close>

datatype response_body =
  ValidationFailedJson
| ErrorJson string
| ErrorMessageJson string string
| TransactionJson Transaction
| OrderV2Json string string string bool

type_synonym response = "nat \<times> response_body"

text \<open>
  The two properties the route reads of a \<^verbatim>\<open>URL\<close> object. The WHATWG parser behind
  \<^verbatim>\<open>new URL(s)\<close> is the parameter \<open>parseURL\<close>, \<open>None\<close> when the constructor throws.
\<close>

record URL =
  protocol :: string
  hostname :: string

text \<open>The test of lines 71 and 72 (\<open>okReturn\<close>, \<open>okCallback\<close>).\<close>

definition url_ok :: "URL \<Rightarrow> bool" where
  "url_ok u \<longleftrightarrow> protocol u = ''https:'' \<or> hostname u = ''localhost'' \<or> hostname u = ''127.0.0.1''"

text \<open>\<^verbatim>\<open>POST /api/v2/orders\<close>.\<close>

definition create_order_v2_route ::
  "(string \<Rightarrow> bool) \<Rightarrow> (string \<Rightarrow> URL option) \<Rightarrow> v2_env \<Rightarrow> MemStorage \<Rightarrow> json \<Rightarrow> response \<times> MemStorage" where
  "create_order_v2_route zod_url parseURL env st reqbody =
     (case createOrderV2Schema zod_url reqbody of
        None \<Rightarrow> ((400, ValidationFailedJson), st)
      | Some d \<Rightarrow>
          (case parseURL (in_return_url d) of
             None \<Rightarrow> ((400, ErrorMessageJson ''ERR_URL_NOT_REGISTERED''
                              ''invalid return_url or callback_url''), st)
           | Some ru \<Rightarrow>
               (case parseURL (in_callback_url d) of
                  None \<Rightarrow> ((400, ErrorMessageJson ''ERR_URL_NOT_REGISTERED''
                                   ''invalid return_url or callback_url''), st)
                | Some cu \<Rightarrow>
                    if \<not> url_ok ru \<or> \<not> url_ok cu then
                      ((400, ErrorMessageJson ''ERR_URL_NOT_REGISTERED''
                               ''return_url and callback_url must be HTTPS and pre-registered''), st)
                    else
                      (let (created, st') = createOrderV2 env st d
                       in ((201, OrderV2Json (cr_gateway_order_id created) (cr_redirect_url created)
                                   (cr_one_time_order_token created) (in_test_mode d = Some True)),
                           st')))))"

text \<open>
  The condition of both 404 answers of lines 106-115: the id is not in \<open>orders\<close>, and
  either it does not start with \<open>gw_\<close> or it is not in \<open>v2orders\<close> either.
\<close>

definition order_not_found :: "MemStorage \<Rightarrow> string \<Rightarrow> bool" where
  "order_not_found st oid \<longleftrightarrow>
     orders st oid = None \<and> (if take 3 oid = ''gw_'' then v2orders st oid = None else True)"

text \<open>Truthiness of an optional string: present and not empty.\<close>

definition truthy :: "string option \<Rightarrow> bool" where
  "truthy v = (case v of None \<Rightarrow> False | Some s \<Rightarrow> s \<noteq> [])"

text \<open>\<^verbatim>\<open>s.slice(-4)\<close>: the last four characters, the whole string when it is shorter.\<close>

definition slice_last4 :: "string \<Rightarrow> string" where
  "slice_last4 s = drop (length s - 4) s"

text \<open>\<^verbatim>\<open>s.includes(p)\<close>.\<close>

fun str_includes :: "string \<Rightarrow> string \<Rightarrow> bool" where
  "str_includes [] p = (p = [])"
| "str_includes (c # cs) p = (take (length p) (c # cs) = p \<or> str_includes cs p)"

text \<open>
  The outcome computation of lines 117-149: either the early 404 of line 124, or the
  status, the failure reason, the bank name and the storage after the balance update.
\<close>

datatype outcome =
  BankAccountNotFound
| Outcome string "string option" "string option" MemStorage

definition compute_outcome :: "MemStorage \<Rightarrow> ProcessPaymentInput \<Rightarrow> outcome" where
  "compute_outcome st d =
     (if paymentMethod d = ''netbanking'' \<and> truthy (bankAccountId d) then
        (case bankAccounts st (the (bankAccountId d)) of
           None \<Rightarrow> BankAccountNotFound
         | Some bankAccount \<Rightarrow>
             if balance bankAccount < amount d then
               Outcome ''failed'' (Some ''Insufficient balance in the selected bank account'')
                 (Some (bankName bankAccount)) st
             else
               Outcome ''success'' None (Some (bankName bankAccount))
                 (updateBankAccountBalance st (the (bankAccountId d)) (balance bankAccount - amount d)))
      else if paymentMethod d = ''card'' \<and> cardDetails d \<noteq> None then
        (let lastFourDigits = slice_last4 (cardNumber (the (cardDetails d))) in
         if lastFourDigits = ''0000'' then Outcome ''failed'' (Some ''Card declined by issuer'') None st
         else if lastFourDigits = ''1111'' then Outcome ''failed'' (Some ''Insufficient funds'') None st
         else Outcome ''success'' None None st)
      else if paymentMethod d = ''upi'' \<and> truthy (upiId d) then
        (if str_includes (the (upiId d)) ''fail'' then
           Outcome ''failed'' (Some ''UPI transaction declined'') None st
         else Outcome ''success'' None None st)
      else Outcome ''success'' None None st)"

text \<open>The card object of the webhook payload and the payload of lines 184-197.\<close>

record PayloadCard =
  network :: string
  masked :: string
  token_id :: "string option"

record WebhookPayload =
  p_gateway_order_id :: string
  p_merchant_order_id :: string
  p_payment_ref :: string
  p_status :: string
  p_amount_in_paisa :: int
  p_currency :: string
  p_paid_at :: string
  p_payment_method :: string
  p_card :: "PayloadCard option"
  p_one_time_order_token :: string
  p_test_mode :: bool
  p_metadata :: "(string \<times> json) list option"

text \<open>
  What the process-payment route reads from outside: the UUID of the transaction id, the
  three readings of the clock (transaction timestamp, \<open>paid_at\<close> of the order, \<open>paid_at\<close> of
  the payload) and the two environment variables with the webhook secrets.
\<close>

record pp_env =
  uuid_txn :: string
  now_transaction :: string
  now_paid :: string
  now_payload :: string
  MERCHANT_TEST_WEBHOOK_SECRET :: "string option"
  MERCHANT_WEBHOOK_SECRET :: "string option"

text \<open>
  The block of lines 162-209 for an order \<open>v2\<close> found in \<open>v2orders\<close>: the order is marked
  (status, \<open>paid_at\<close>, \<open>transaction_id\<close>) in the map, and the options of the
  \<^verbatim>\<open>sendSignedWebhook\<close> call are built. \<^verbatim>\<open>JSON.stringify\<close> is the parameter \<open>stringify\<close>.
\<close>

definition mark_and_build ::
  "(WebhookPayload \<Rightarrow> string) \<Rightarrow> pp_env \<Rightarrow> MemStorage \<Rightarrow> ProcessPaymentInput \<Rightarrow> string \<Rightarrow>
   Transaction \<Rightarrow> V2Order \<Rightarrow> MemStorage \<times> WebhookOptions" where
  "mark_and_build stringify env st d st_status transaction v2 =
     (let v2' = v2\<lparr>v2_status := (if st_status = ''success'' then ''COMPLETED'' else ''FAILED''),
                   paid_at := Some (now_paid env),
                   transaction_id := Some (txn_id transaction)\<rparr>;
          payload = \<lparr>p_gateway_order_id = gateway_order_id v2',
                     p_merchant_order_id = merchant_order_id v2',
                     p_payment_ref = txn_id transaction,
                     p_status = (if st_status = ''success'' then ''SUCCESS'' else ''FAILED''),
                     p_amount_in_paisa = amount_in_paisa v2',
                     p_currency = currency v2',
                     p_paid_at = now_payload env,
                     p_payment_method = toUpperCase (paymentMethod d),
                     p_card = (if paymentMethod d = ''card'' \<and> cardDetails d \<noteq> None
                               then Some \<lparr>network = '''',
                                          masked = ''****'' @ slice_last4 (cardNumber (the (cardDetails d))),
                                          token_id = None\<rparr>
                               else None),
                     p_one_time_order_token = one_time_order_token v2',
                     p_test_mode = test_mode v2',
                     p_metadata = metadata v2'\<rparr>;
          raw = stringify payload;
          sec = (if test_mode v2'
                 then (case MERCHANT_TEST_WEBHOOK_SECRET env of None \<Rightarrow> ''test_secret'' | Some s \<Rightarrow> s)
                 else (case MERCHANT_WEBHOOK_SECRET env of None \<Rightarrow> ''prod_secret'' | Some s \<Rightarrow> s))
      in (st\<lparr>v2orders := (v2orders st)(orderId d \<mapsto> v2')\<rparr>,
          \<lparr>url = callback_url v2', body = raw, secret = sec, maxRetries = None,
           idempotencyKey = Some (txn_id transaction), testMode = Some (test_mode v2')\<rparr>))"

text \<open>
  \<^verbatim>\<open>POST /api/process-payment\<close>: the response, the storage afterwards, and the options of
  the webhook dispatch the route starts without awaiting it (\<open>None\<close> when it starts none).
  The call \<^verbatim>\<open>storage.getOrderByMerchantId("", "")\<close> of line 164 reads the map and its
  result is not used; no operation of the in-memory storage throws, so the two
  \<^verbatim>\<open>catch\<close> blocks of the route (lines 207 and 267) are not entered.
\<close>

definition process_payment ::
  "(WebhookPayload \<Rightarrow> string) \<Rightarrow> pp_env \<Rightarrow> MemStorage \<Rightarrow> json \<Rightarrow>
   response \<times> MemStorage \<times> WebhookOptions option" where
  "process_payment stringify env st reqbody =
     (case processPaymentSchema reqbody of
        None \<Rightarrow> ((400, ValidationFailedJson), st, None)
      | Some d \<Rightarrow>
          if order_not_found st (orderId d) then ((404, ErrorJson ''Order not found''), st, None)
          else
            (case compute_outcome st d of
               BankAccountNotFound \<Rightarrow> ((404, ErrorJson ''Bank account not found''), st, None)
             | Outcome st_status failureReason bName st1 \<Rightarrow>
                 (let (transaction, st2) = createTransaction (uuid_txn env) st1
                        \<lparr>txn_id = '''', txn_orderId = orderId d, txn_amount = amount d,
                         txn_paymentMethod = paymentMethod d, txn_bankAccountId = bankAccountId d,
                         txn_bankName = bName, txn_status = st_status,
                         txn_failureReason = failureReason,
                         txn_timestamp = now_transaction env\<rparr>
                  in (case v2orders st2 (orderId d) of
                        None \<Rightarrow> ((201, TransactionJson transaction), st2, None)
                      | Some v2 \<Rightarrow>
                          (let (st3, opts) = mark_and_build stringify env st2 d st_status transaction v2
                           in ((201, TransactionJson transaction), st3, Some opts))))))"

text \<open>
  The callback of line 203, \<^verbatim>\<open>.then((r) => { if (!r.success) console.error(...) })\<close>, run
  when the dispatch has resolved, on the server state at that time: the storage and the
  lines written to the console.
\<close>

definition webhook_then :: "string \<Rightarrow> delivery_result \<Rightarrow> MemStorage \<times> string list \<Rightarrow> MemStorage \<times> string list" where
  "webhook_then cb r srv =
     (if \<not> success r then (fst srv, snd srv @ [''Webhook delivery failed for '' @ cb]) else srv)"

text \<open>
  A payment-processing event followed by the delivery it started: the route runs, the
  dispatch runs against the endpoint \<open>fetch\<close>, and the callback runs on its result.
\<close>

definition process_payment_and_deliver ::
  "(WebhookPayload \<Rightarrow> string) \<Rightarrow> (string \<Rightarrow> string \<Rightarrow> string) \<Rightarrow> pp_env \<Rightarrow> nat \<Rightarrow>
   (nat \<Rightarrow> http_request \<Rightarrow> fetch_outcome) \<Rightarrow> (nat \<Rightarrow> nat) \<Rightarrow> MemStorage \<times> string list \<Rightarrow> json \<Rightarrow>
   response \<times> MemStorage \<times> string list" where
  "process_payment_and_deliver stringify hmac env now fetch random srv reqbody =
     (case process_payment stringify env (fst srv) reqbody of
        (resp, st', None) \<Rightarrow> (resp, st', snd srv)
      | (resp, st', Some opts) \<Rightarrow>
          (resp, webhook_then (url opts) (fst (sendSignedWebhook hmac now fetch random opts))
                   (st', snd srv)))"

section \<open>Concrete inputs\<close>

text \<open>
  A storage with one legacy order and two v2 orders in state \<open>CREATED\<close>, request bodies
  for card payments, and stand-ins for the library functions, used to run the routes.
\<close>

definition example_v2order :: V2Order where
  "example_v2order =
     \<lparr>gateway_order_id = ''gw_1a2b3c4d'', merchant_id = ''mer_test'',
      merchant_order_id = ''order_test_1'', one_time_order_token = ''ott_0123456789'',
      amount_in_paisa = 49900, currency = ''INR'', display_amount = None, customer = None,
      plan = None, return_url = ''http://localhost:5000/pay/return'',
      callback_url = ''http://localhost:6000/webhook'', test_mode = True, metadata = None,
      idempotency_key = None, v2_status = ''CREATED'', created_at = ''2025-01-01T00:00:00.000Z'',
      paid_at = None, transaction_id = None\<rparr>"

definition example_storage :: MemStorage where
  "example_storage =
     \<lparr>bankAccounts = Map.empty,
      orders = [''ORD_1A2B3C4D'' \<mapsto> \<lparr>ord_id = ''ORD_1A2B3C4D'', ord_name = ''Test User'',
                 ord_email = ''t@e.com'', ord_phone = ''+911234567890'', ord_amount = 499\<rparr>],
      v2orders = [''gw_1a2b3c4d'' \<mapsto> example_v2order,
                  ''gw_5e6f7a8b'' \<mapsto> example_v2order\<lparr>gateway_order_id := ''gw_5e6f7a8b'',
                     merchant_order_id := ''order_test_2''\<rparr>],
      transactions = Map.empty\<rparr>"

definition example_env :: pp_env where
  "example_env =
     \<lparr>uuid_txn = ''0a1b2c3d-4e5f-4a6b-8c7d-9e0f1a2b3c4d'',
      now_transaction = ''2025-01-01T00:00:01.000Z'', now_paid = ''2025-01-01T00:00:01.001Z'',
      now_payload = ''2025-01-01T00:00:01.002Z'',
      MERCHANT_TEST_WEBHOOK_SECRET = None, MERCHANT_WEBHOOK_SECRET = None\<rparr>"

definition example_env2 :: pp_env where
  "example_env2 =
     \<lparr>uuid_txn = ''ffeeddcc-bbaa-4a6b-8c7d-9e0f1a2b3c4d'',
      now_transaction = ''2025-01-01T00:00:02.000Z'', now_paid = ''2025-01-01T00:00:02.001Z'',
      now_payload = ''2025-01-01T00:00:02.002Z'',
      MERCHANT_TEST_WEBHOOK_SECRET = None, MERCHANT_WEBHOOK_SECRET = None\<rparr>"

definition card_body :: "string \<Rightarrow> string \<Rightarrow> json" where
  "card_body oid num =
     JObj [(''orderId'', JStr oid), (''amount'', JNum 49900), (''paymentMethod'', JStr ''card''),
           (''cardDetails'', JObj [(''cardNumber'', JStr num), (''expiry'', JStr ''12/30''),
                                  (''cvv'', JStr ''123''), (''cardHolderName'', JStr ''Test'')])]"

definition bare_body :: "string \<Rightarrow> string \<Rightarrow> json" where
  "bare_body oid method =
     JObj [(''orderId'', JStr oid), (''amount'', JNum 49900), (''paymentMethod'', JStr method)]"

text \<open>A stand-in for \<^verbatim>\<open>JSON.stringify\<close> that renders two properties of the payload.\<close>

definition example_stringify :: "WebhookPayload \<Rightarrow> string" where
  "example_stringify p = p_gateway_order_id p @ '' '' @ p_status p"

text \<open>
  The results of \<^verbatim>\<open>new URL(s)\<close> on the URLs used below, and the zod check as zod 3 does
  it (the string passes when \<^verbatim>\<open>new URL\<close> accepts it).
\<close>

definition example_parseURL :: "string \<Rightarrow> URL option" where
  "example_parseURL = map_of
     [(''https://merchant.example/return'', \<lparr>protocol = ''https:'', hostname = ''merchant.example''\<rparr>),
      (''https://merchant.example/hook'', \<lparr>protocol = ''https:'', hostname = ''merchant.example''\<rparr>),
      (''http://merchant.example/return'', \<lparr>protocol = ''http:'', hostname = ''merchant.example''\<rparr>),
      (''http://merchant.example/hook'', \<lparr>protocol = ''http:'', hostname = ''merchant.example''\<rparr>),
      (''http://localhost:5000/pay/return'', \<lparr>protocol = ''http:'', hostname = ''localhost''\<rparr>),
      (''http://localhost:6000/webhook'', \<lparr>protocol = ''http:'', hostname = ''localhost''\<rparr>)]"

definition example_zod_url :: "string \<Rightarrow> bool" where
  "example_zod_url s \<longleftrightarrow> example_parseURL s \<noteq> None"

definition example_v2_env :: v2_env where
  "example_v2_env =
     \<lparr>uuid_order = ''9f8e7d6c-5b4a-4a6b-8c7d-9e0f1a2b3c4d'',
      uuid_token = ''01234567-89ab-4cde-8f01-23456789abcd'',
      now_created = ''2025-01-01T00:00:00.000Z''\<rparr>"

definition order_body :: "real \<Rightarrow> string \<Rightarrow> string \<Rightarrow> json" where
  "order_body amt ru cu =
     JObj [(''merchant_id'', JStr ''mer_test''), (''order_id'', JStr ''order_test_1''),
           (''amount_in_paisa'', JNum amt), (''return_url'', JStr ru), (''callback_url'', JStr cu),
           (''test_mode'', JBool True)]"

text \<open>Reading a response and the result of a route.\<close>

definition txn_of :: "response \<Rightarrow> Transaction option" where
  "txn_of r = (case snd r of TransactionJson t \<Rightarrow> Some t | _ \<Rightarrow> None)"

definition is_url_not_registered :: "response \<Rightarrow> bool" where
  "is_url_not_registered r \<longleftrightarrow>
     fst r = 400 \<and> (case snd r of ErrorMessageJson e m \<Rightarrow> e = ''ERR_URL_NOT_REGISTERED'' | _ \<Rightarrow> False)"

text \<open>
  The condition of the rule on a URL: it does not parse, or it is neither HTTPS nor on
  \<open>localhost\<close> or \<open>127.0.0.1\<close>.
\<close>

definition url_rejected :: "(string \<Rightarrow> URL option) \<Rightarrow> string \<Rightarrow> bool" where
  "url_rejected parseURL s = (case parseURL s of None \<Rightarrow> True | Some u \<Rightarrow> \<not> url_ok u)"

definition status_of :: "MemStorage \<Rightarrow> string \<Rightarrow> string option" where
  "status_of st oid = map_option v2_status (v2orders st oid)"

text \<open>The storage after a successful card payment for the v2 order.\<close>

definition example_after_first :: MemStorage where
  "example_after_first =
     fst (snd (process_payment example_stringify example_env example_storage
       (card_body ''gw_1a2b3c4d'' ''4242424242424242'')))"


section \<open>Properties of the dispatcher\<close>

lemma fst_prepend [simp]: "fst (prepend es p) = fst p"
  by (simp add: prepend_def)

lemma snd_prepend [simp]: "snd (prepend es p) = es @ snd p"
  by (simp add: prepend_def)

lemma fetches_append [simp]: "fetches (es @ fs) = fetches es @ fetches fs"
  by (induction es rule: fetches.induct) auto

lemma sleeps_append [simp]: "sleeps (es @ fs) = sleeps es @ sleeps fs"
  by (induction es rule: sleeps.induct) auto

lemma attempt_loop_done:
  "\<not> int a \<le> maxR \<Longrightarrow>
   attempt_loop fetch random opts maxR ts sg a = (\<lparr>success = False, status = 0\<rparr>, [])"
  by (simp add: attempt_loop.simps)

lemma attempt_loop_ok:
  "int a \<le> maxR \<Longrightarrow> fetch a (build_request opts sg ts a) = Response st \<Longrightarrow> res_ok st \<Longrightarrow>
   attempt_loop fetch random opts maxR ts sg a =
     (\<lparr>success = True, status = st\<rparr>, [Fetch (build_request opts sg ts a)])"
  by (simp add: attempt_loop.simps)

lemma attempt_loop_retry:
  "int a \<le> maxR \<Longrightarrow> \<not> accepted (fetch a (build_request opts sg ts a)) \<Longrightarrow>
   attempt_loop fetch random opts maxR ts sg a =
     prepend [Fetch (build_request opts sg ts a), Sleep (backoff_delay (a + 1) (random a))]
       (attempt_loop fetch random opts maxR ts sg (a + 1))"
  by (subst attempt_loop.simps) (simp add: accepted_def split: fetch_outcome.splits)

lemma attempt_loop_induct [case_names Done Ok Retry]:
  assumes "\<And>a. \<not> int a \<le> maxR \<Longrightarrow> P a"
    and "\<And>a st. int a \<le> maxR \<Longrightarrow> fetch a (build_request opts sg ts a) = Response st \<Longrightarrow>
           res_ok st \<Longrightarrow> P a"
    and "\<And>a. int a \<le> maxR \<Longrightarrow> \<not> accepted (fetch a (build_request opts sg ts a)) \<Longrightarrow>
           P (a + 1) \<Longrightarrow> P a"
  shows "P a"
proof (induction "nat (maxR + 1 - int a)" arbitrary: a)
  case 0
  then have "\<not> int a \<le> maxR" by simp
  then show ?case by (rule assms(1))
next
  case (Suc n)
  then have le: "int a \<le> maxR" by simp
  show ?case
  proof (cases "accepted (fetch a (build_request opts sg ts a))")
    case True
    then obtain st where "fetch a (build_request opts sg ts a) = Response st" "res_ok st"
      by (auto simp: accepted_def split: fetch_outcome.splits)
    with le show ?thesis by (rule assms(2))
  next
    case False
    from Suc(2) have "n = nat (maxR + 1 - int (a + 1))" by simp
    then have "P (a + 1)" by (rule Suc(1))
    with le False show ?thesis by (rule assms(3))
  qed
qed

lemma attempt_loop_result:
  "fst (attempt_loop fetch random opts maxR ts sg a) = \<lparr>success = False, status = 0\<rparr> \<or>
   (\<exists>st. res_ok st \<and> fst (attempt_loop fetch random opts maxR ts sg a) = \<lparr>success = True, status = st\<rparr>)"
proof (induction a rule: attempt_loop_induct [where maxR = maxR and fetch = fetch and opts = opts and sg = sg and ts = ts])
  case (Done a)
  then show ?case by (simp add: attempt_loop_done)
next
  case (Ok a st)
  then show ?case by (simp add: attempt_loop_ok)
next
  case (Retry a)
  then show ?case by (simp add: attempt_loop_retry)
qed

lemma attempt_loop_length_fetches:
  "length (fetches (snd (attempt_loop fetch random opts maxR ts sg a))) \<le> nat (maxR + 1 - int a)"
proof (induction a rule: attempt_loop_induct [where maxR = maxR and fetch = fetch and opts = opts and sg = sg and ts = ts])
  case (Done a)
  then show ?case by (simp add: attempt_loop_done)
next
  case (Ok a st)
  then show ?case by (simp add: attempt_loop_ok)
next
  case (Retry a)
  then show ?case by (simp add: attempt_loop_retry)
qed

lemma attempt_loop_fetches:
  "\<exists>n. fetches (snd (attempt_loop fetch random opts maxR ts sg a)) =
     map (build_request opts sg ts) [a ..< a + n]"
proof (induction a rule: attempt_loop_induct [where maxR = maxR and fetch = fetch and opts = opts and sg = sg and ts = ts])
  case (Done a)
  then have "fetches (snd (attempt_loop fetch random opts maxR ts sg a)) =
     map (build_request opts sg ts) [a ..< a + 0]"
    by (simp add: attempt_loop_done)
  then show ?case ..
next
  case (Ok a st)
  then have "fetches (snd (attempt_loop fetch random opts maxR ts sg a)) =
     map (build_request opts sg ts) [a ..< a + 1]"
    by (simp add: attempt_loop_ok)
  then show ?case ..
next
  case (Retry a)
  from Retry(3) obtain n where
    n: "fetches (snd (attempt_loop fetch random opts maxR ts sg (a + 1))) =
          map (build_request opts sg ts) [a + 1 ..< a + 1 + n]" ..
  have "[a ..< a + (n + 1)] = a # [a + 1 ..< a + 1 + n]"
    by (simp add: upt_conv_Cons)
  with Retry(1,2) n
  have "fetches (snd (attempt_loop fetch random opts maxR ts sg a)) =
     map (build_request opts sg ts) [a ..< a + (n + 1)]"
    by (simp add: attempt_loop_retry)
  then show ?case ..
qed

lemma attempt_loop_all_fail:
  assumes "\<forall>k req. \<not> accepted (fetch k req)"
  shows "fst (attempt_loop fetch random opts maxR ts sg a) = \<lparr>success = False, status = 0\<rparr> \<and>
         length (fetches (snd (attempt_loop fetch random opts maxR ts sg a))) = nat (maxR + 1 - int a) \<and>
         length (sleeps (snd (attempt_loop fetch random opts maxR ts sg a))) = nat (maxR + 1 - int a)"
proof (induction a rule: attempt_loop_induct [where maxR = maxR and fetch = fetch and opts = opts and sg = sg and ts = ts])
  case (Done a)
  then show ?case by (simp add: attempt_loop_done)
next
  case (Ok a st)
  from Ok(2,3) have "accepted (fetch a (build_request opts sg ts a))"
    by (simp add: accepted_def)
  with assms show ?case by blast
next
  case (Retry a)
  then show ?case by (simp add: attempt_loop_retry)
qed

lemma attempt_loop_sleeps:
  "\<exists>n. sleeps (snd (attempt_loop fetch random opts maxR ts sg a)) =
     map (\<lambda>k. backoff_delay (k + 1) (random k)) [a ..< a + n]"
proof (induction a rule: attempt_loop_induct [where maxR = maxR and fetch = fetch and opts = opts and sg = sg and ts = ts])
  case (Done a)
  then have "sleeps (snd (attempt_loop fetch random opts maxR ts sg a)) =
     map (\<lambda>k. backoff_delay (k + 1) (random k)) [a ..< a + 0]"
    by (simp add: attempt_loop_done)
  then show ?case ..
next
  case (Ok a st)
  then have "sleeps (snd (attempt_loop fetch random opts maxR ts sg a)) =
     map (\<lambda>k. backoff_delay (k + 1) (random k)) [a ..< a + 0]"
    by (simp add: attempt_loop_ok)
  then show ?case ..
next
  case (Retry a)
  from Retry(3) obtain n where
    n: "sleeps (snd (attempt_loop fetch random opts maxR ts sg (a + 1))) =
          map (\<lambda>k. backoff_delay (k + 1) (random k)) [a + 1 ..< a + 1 + n]" ..
  have "[a ..< a + (n + 1)] = a # [a + 1 ..< a + 1 + n]"
    by (simp add: upt_conv_Cons)
  with Retry(1,2) n
  have "sleeps (snd (attempt_loop fetch random opts maxR ts sg a)) =
     map (\<lambda>k. backoff_delay (k + 1) (random k)) [a ..< a + (n + 1)]"
    by (simp add: attempt_loop_retry)
  then show ?case ..
qed

lemma header_build_request:
  "header ''X-Gateway-Signature'' (build_request opts sg ts k) = Some sg"
  "header ''X-Gateway-Timestamp'' (build_request opts sg ts k) = Some ts"
  "header ''X-Gateway-Retry-Count'' (build_request opts sg ts k) = Some (js_String k)"
  by (simp_all add: header_def build_request_def build_headers_def)


lemma attempt_loop_first_ok:
  "0 \<le> maxR \<Longrightarrow> fetch 0 (build_request opts sg ts 0) = Response st \<Longrightarrow> res_ok st \<Longrightarrow>
   attempt_loop fetch random opts maxR ts sg 0 =
     (\<lparr>success = True, status = st\<rparr>, [Fetch (build_request opts sg ts 0)])"
  by (rule attempt_loop_ok) simp_all

lemma js_String_not_Nil: "js_String n \<noteq> []"
  by (subst js_String.simps) simp

lemma digit_char_inj: "a < 10 \<Longrightarrow> b < 10 \<Longrightarrow> digit_char a = digit_char b \<Longrightarrow> a = b"
  using nth_eq_iff_index_eq [of "''0123456789''" a b] by (simp add: digit_char_def)

lemma js_String_inj: "js_String m = js_String n \<Longrightarrow> m = n"
proof (induction m arbitrary: n rule: js_String.induct)
  case (1 m)
  show ?case
  proof (cases "m < 10")
    case small: True
    show ?thesis
    proof (cases "n < 10")
      case True
      with small "1.prems" show ?thesis
        by (simp add: js_String.simps [of m] js_String.simps [of n] digit_char_inj)
    next
      case False
      with small "1.prems" js_String_not_Nil [of "n div 10"] show ?thesis
        by (simp add: js_String.simps [of m] js_String.simps [of n])
    qed
  next
    case big: False
    show ?thesis
    proof (cases "n < 10")
      case True
      with big "1.prems" js_String_not_Nil [of "m div 10"] show ?thesis
        by (simp add: js_String.simps [of m] js_String.simps [of n])
    next
      case False
      with big "1.prems" have eq: "js_String (m div 10) = js_String (n div 10)"
        and d: "digit_char (m mod 10) = digit_char (n mod 10)"
        by (simp_all add: js_String.simps [of m] js_String.simps [of n])
      from "1.IH" [OF big eq] have q: "m div 10 = n div 10" .
      have "m mod 10 < 10" and "n mod 10 < 10"
        by simp_all
      then have r: "m mod 10 = n mod 10"
        using d by (rule digit_char_inj)
      have "m = m div 10 * 10 + m mod 10"
        by (rule div_mult_mod_eq [symmetric])
      also have "\<dots> = n div 10 * 10 + n mod 10"
        by (simp only: q r)
      also have "\<dots> = n"
        by (rule div_mult_mod_eq)
      finally show ?thesis .
    qed
  qed
qed


text \<open>
  C1. With the default \<open>maxRetries\<close> (5) a dispatch sends at most 6 requests. If the
  first response is 2xx the dispatch returns success with that status after exactly that one
  request and nothing else. If the endpoint never accepts (every call answers with a
  non-2xx status or fails in transport) the dispatch sends exactly 6 requests and returns
  the failure result.
\<close>

theorem sendSignedWebhook_default_attempts:
  assumes "maxRetries opts = None"
  shows "length (fetches (snd (sendSignedWebhook hmac now fetch random opts))) \<le> 6 \<and>
    (\<forall>st. fetch 0 (dispatch_request hmac now opts 0) = Response st \<and> res_ok st \<longrightarrow>
       sendSignedWebhook hmac now fetch random opts =
         (\<lparr>success = True, status = st\<rparr>, [Fetch (dispatch_request hmac now opts 0)])) \<and>
    ((\<forall>k req. \<not> accepted (fetch k req)) \<longrightarrow>
       fst (sendSignedWebhook hmac now fetch random opts) = \<lparr>success = False, status = 0\<rparr> \<and>
       length (fetches (snd (sendSignedWebhook hmac now fetch random opts))) = 6)"
proof (intro conjI allI impI)
  let ?sg = "computeSignature hmac (secret opts) (body opts)"
  let ?ts = "js_String (now div 1000)"
  have unfold: "sendSignedWebhook hmac now fetch random opts = attempt_loop fetch random opts 5 ?ts ?sg 0"
    using assms by (simp add: sendSignedWebhook_def)
  show "length (fetches (snd (sendSignedWebhook hmac now fetch random opts))) \<le> 6"
    using attempt_loop_length_fetches [of fetch random opts 5 ?ts ?sg 0] by (simp add: unfold)
  {
    fix st
    assume "fetch 0 (dispatch_request hmac now opts 0) = Response st \<and> res_ok st"
    then show "sendSignedWebhook hmac now fetch random opts =
         (\<lparr>success = True, status = st\<rparr>, [Fetch (dispatch_request hmac now opts 0)])"
      by (simp add: unfold dispatch_request_def attempt_loop_first_ok)
  }
  {
    assume fail: "\<forall>k req. \<not> accepted (fetch k req)"
    from attempt_loop_all_fail [OF fail, of random opts 5 ?ts ?sg 0]
    show "fst (sendSignedWebhook hmac now fetch random opts) = \<lparr>success = False, status = 0\<rparr>"
      and "length (fetches (snd (sendSignedWebhook hmac now fetch random opts))) = 6"
      by (simp_all add: unfold)
  }
qed

theorem sendSignedWebhook_default_attempts_witness:
  "maxRetries example_opts = None \<and>
   res_ok 200 \<and>
   sendSignedWebhook (\<lambda>k m. ''ab'') 1700000000123 (\<lambda>k req. Response 200) (\<lambda>k. 7) example_opts =
     (\<lparr>success = True, status = 200\<rparr>,
      [Fetch (dispatch_request (\<lambda>k m. ''ab'') 1700000000123 example_opts 0)]) \<and>
   (\<forall>k req. \<not> accepted ((\<lambda>k req. Response 500) k req)) \<and>
   fst (sendSignedWebhook (\<lambda>k m. ''ab'') 1700000000123 (\<lambda>k req. Response 500) (\<lambda>k. 7) example_opts) =
     \<lparr>success = False, status = 0\<rparr> \<and>
   length (fetches (snd (sendSignedWebhook (\<lambda>k m. ''ab'') 1700000000123 (\<lambda>k req. Response 500)
     (\<lambda>k. 7) example_opts))) = 6"
proof -
  have h: "maxRetries example_opts = None" by (simp add: example_opts_def)
  have ok: "res_ok 200" by (simp add: res_ok_def)
  have bad: "\<forall>k req. \<not> accepted ((\<lambda>k req. Response 500) k req)"
    by (simp add: accepted_def res_ok_def)
  from sendSignedWebhook_default_attempts [OF h, of "\<lambda>k m. ''ab''" 1700000000123 "\<lambda>k req. Response 200" "\<lambda>k. 7"]
    sendSignedWebhook_default_attempts [OF h, of "\<lambda>k m. ''ab''" 1700000000123 "\<lambda>k req. Response 500" "\<lambda>k. 7"]
    h ok bad
  show ?thesis by simp
qed


text \<open>
  C3, as the specification states it: for every attempt number \<open>n\<close> in 1..6 and jitter
  below 300 the delay is \<open>min 30000 (1000 * 2 ^ n + jitter)\<close>, at least \<open>2 ^ n * 1000\<close>,
  below \<open>min 30000 (2 ^ n * 1000) + 300\<close> and at most 30300. The lower bound fails once the
  cap applies: at \<open>n = 5\<close> the delay is 30000, below \<open>2 ^ 5 * 1000 = 32000\<close>.
\<close>

theorem backoff_delay_lower_bound_counterexample:
  "\<not> (backoff_delay 5 0 = min 30000 (1000 * 2 ^ 5 + 0) \<and>
      2 ^ 5 * 1000 \<le> backoff_delay 5 0 \<and>
      backoff_delay 5 0 < min 30000 (2 ^ 5 * 1000) + 300 \<and>
      backoff_delay 5 0 \<le> 30300)"
  by (simp add: backoff_delay_def baseDelay_def)


text \<open>
  C3, amended: for every attempt number \<open>n\<close> in 1..6 and jitter below 300 the delay is
  \<open>min 30000 (1000 * 2 ^ n + jitter)\<close>; it is at least \<open>min 30000 (2 ^ n * 1000)\<close>, below
  \<open>min 30000 (2 ^ n * 1000) + 300\<close> and at most 30300; the uncapped lower bound
  \<open>2 ^ n * 1000\<close> holds for \<open>n \<le> 4\<close>.
\<close>

theorem backoff_delay_bounds:
  assumes "1 \<le> n" and "n \<le> 6" and "jitter < 300"
  shows "backoff_delay n jitter = min 30000 (1000 * 2 ^ n + jitter) \<and>
         min 30000 (2 ^ n * 1000) \<le> backoff_delay n jitter \<and>
         backoff_delay n jitter < min 30000 (2 ^ n * 1000) + 300 \<and>
         backoff_delay n jitter \<le> 30300 \<and>
         (n \<le> 4 \<longrightarrow> 2 ^ n * 1000 \<le> backoff_delay n jitter)"
proof -
  from assms(1,2) consider "n = 1" | "n = 2" | "n = 3" | "n = 4" | "n = 5" | "n = 6"
    by linarith
  then show ?thesis
    using assms(3) by cases (simp_all add: backoff_delay_def baseDelay_def)
qed

theorem backoff_delay_bounds_witness:
  "(1::nat) \<le> 5 \<and> (5::nat) \<le> 6 \<and> (299::nat) < 300 \<and>
   backoff_delay 5 299 = 30000 \<and> backoff_delay 3 299 = 8299 \<and> (3::nat) \<le> 4 \<and>
   2 ^ 3 * 1000 \<le> backoff_delay 3 299"
  using backoff_delay_bounds [of 5 299] backoff_delay_bounds [of 3 299]
  by (simp add: backoff_delay_def baseDelay_def)


text \<open>
  C4. The claim: the dispatcher suspends only between attempts, and returns failure after
  the final failed attempt without a further suspension. The loop suspends after every
  failed attempt, the last one included: against an endpoint that always answers 500, with
  the default \<open>maxRetries\<close>, it sends 6 requests and sleeps 6 times, and the last effect
  before it returns is a sleep of 30000 ms.
\<close>

theorem sendSignedWebhook_sleeps_after_final_attempt:
  "sleeps (snd (sendSignedWebhook (\<lambda>k m. ''ab'') 1700000000123 (\<lambda>k req. Response 500) (\<lambda>k. 0) example_opts))
     = [2000, 4000, 8000, 16000, 30000, 30000] \<and>
   length (fetches (snd (sendSignedWebhook (\<lambda>k m. ''ab'') 1700000000123 (\<lambda>k req. Response 500) (\<lambda>k. 0) example_opts))) = 6 \<and>
   last (snd (sendSignedWebhook (\<lambda>k m. ''ab'') 1700000000123 (\<lambda>k req. Response 500) (\<lambda>k. 0) example_opts)) = Sleep 30000"
  by (simp add: sendSignedWebhook_def example_opts_def attempt_loop.simps res_ok_def prepend_def
      backoff_delay_def baseDelay_def Let_def)


text \<open>
  C5. Every request of a dispatch carries the same \<open>X-Gateway-Signature\<close>, the string
  \<open>sha256=\<close> followed by the hex HMAC of the body under the secret, and the same
  \<open>X-Gateway-Timestamp\<close>, both computed once before the loop; the request with index \<open>i\<close>
  carries \<open>X-Gateway-Retry-Count\<close> equal to \<open>String(i)\<close> (and \<open>js_String\<close> is injective,
  lemma \<open>js_String_inj\<close>, so the header determines \<open>i\<close>).
\<close>

theorem sendSignedWebhook_headers:
  "\<forall>i < length (fetches (snd (sendSignedWebhook hmac now fetch random opts))).
     header ''X-Gateway-Signature'' (fetches (snd (sendSignedWebhook hmac now fetch random opts)) ! i) =
       Some (''sha256='' @ hmac (secret opts) (body opts)) \<and>
     header ''X-Gateway-Timestamp'' (fetches (snd (sendSignedWebhook hmac now fetch random opts)) ! i) =
       Some (js_String (now div 1000)) \<and>
     header ''X-Gateway-Retry-Count'' (fetches (snd (sendSignedWebhook hmac now fetch random opts)) ! i) =
       Some (js_String i)"
proof -
  let ?sg = "computeSignature hmac (secret opts) (body opts)"
  let ?ts = "js_String (now div 1000)"
  obtain maxR where unfold:
    "sendSignedWebhook hmac now fetch random opts = attempt_loop fetch random opts maxR ?ts ?sg 0"
    by (simp add: sendSignedWebhook_def)
  from attempt_loop_fetches [of fetch random opts maxR ?ts ?sg 0] obtain n where
    "fetches (snd (sendSignedWebhook hmac now fetch random opts)) = map (build_request opts ?sg ?ts) [0 ..< n]"
    by (auto simp: unfold)
  then show ?thesis
    by (simp add: header_build_request computeSignature_def)
qed

theorem sendSignedWebhook_headers_witness:
  "1 < length (fetches (snd (sendSignedWebhook (\<lambda>k m. ''ab'') 1700000000123
       (\<lambda>k req. if k = 0 then Response 500 else Response 200) (\<lambda>k. 7) example_opts))) \<and>
   header ''X-Gateway-Signature'' (fetches (snd (sendSignedWebhook (\<lambda>k m. ''ab'') 1700000000123
       (\<lambda>k req. if k = 0 then Response 500 else Response 200) (\<lambda>k. 7) example_opts)) ! 0) =
     Some ''sha256=ab'' \<and>
   header ''X-Gateway-Signature'' (fetches (snd (sendSignedWebhook (\<lambda>k m. ''ab'') 1700000000123
       (\<lambda>k req. if k = 0 then Response 500 else Response 200) (\<lambda>k. 7) example_opts)) ! 1) =
     Some ''sha256=ab'' \<and>
   header ''X-Gateway-Timestamp'' (fetches (snd (sendSignedWebhook (\<lambda>k m. ''ab'') 1700000000123
       (\<lambda>k req. if k = 0 then Response 500 else Response 200) (\<lambda>k. 7) example_opts)) ! 1) =
     Some ''1700000000'' \<and>
   header ''X-Gateway-Retry-Count'' (fetches (snd (sendSignedWebhook (\<lambda>k m. ''ab'') 1700000000123
       (\<lambda>k req. if k = 0 then Response 500 else Response 200) (\<lambda>k. 7) example_opts)) ! 1) =
     Some ''1''"
proof -
  let ?run = "sendSignedWebhook (\<lambda>k m. ''ab'') 1700000000123
       (\<lambda>k req. if k = 0 then Response 500 else Response 200) (\<lambda>k. 7) example_opts"
  have "maxRetries example_opts = None"
    by (simp add: example_opts_def)
  then have len: "length (fetches (snd ?run)) = 2"
    by (simp add: sendSignedWebhook_def attempt_loop.simps res_ok_def prepend_def Let_def)
  then have c0: "0 < length (fetches (snd ?run))" and c1: "1 < length (fetches (snd ?run))"
    by simp_all
  have ts: "js_String (1700000000123 div 1000) = ''1700000000''"
    by (simp add: js_String.simps digit_char_def)
  have one: "js_String 1 = ''1''"
    by (simp add: js_String.simps digit_char_def)
  have opts: "secret example_opts = ''test_secret''" "body example_opts = ''{}''"
    by (simp_all add: example_opts_def)
  from sendSignedWebhook_headers [rule_format, OF c0] sendSignedWebhook_headers [rule_format, OF c1] c1
  show ?thesis
    unfolding ts one opts by simp
qed


text \<open>
  C9. \<open>sendSignedWebhook\<close> always resolves: the model is a total function in which a
  rejected \<open>fetch\<close> is an outcome the loop handles. Its result is either success with a
  2xx status or exactly \<open>{success: false, status: 0}\<close>; when no attempt is accepted the
  result is the latter, whatever status codes the endpoint returned.
\<close>

theorem sendSignedWebhook_resolves:
  "(fst (sendSignedWebhook hmac now fetch random opts) = \<lparr>success = False, status = 0\<rparr> \<or>
    (\<exists>st. res_ok st \<and>
       fst (sendSignedWebhook hmac now fetch random opts) = \<lparr>success = True, status = st\<rparr>)) \<and>
   ((\<forall>k req. \<not> accepted (fetch k req)) \<longrightarrow>
      fst (sendSignedWebhook hmac now fetch random opts) = \<lparr>success = False, status = 0\<rparr>)"
proof -
  obtain maxR ts sg where unfold:
    "sendSignedWebhook hmac now fetch random opts = attempt_loop fetch random opts maxR ts sg 0"
    by (simp add: sendSignedWebhook_def)
  show ?thesis
    using attempt_loop_result [of fetch random opts maxR ts sg 0]
      attempt_loop_all_fail [of fetch random opts maxR ts sg 0]
    by (simp add: unfold)
qed


theorem sendSignedWebhook_resolves_witness:
  "(\<forall>k req. \<not> accepted ((\<lambda>k req. Response 503) k req)) \<and>
   fst (sendSignedWebhook (\<lambda>k m. ''ab'') 1700000000123 (\<lambda>k req. Response 503) (\<lambda>k. 7) example_opts) =
     \<lparr>success = False, status = 0\<rparr>"
proof -
  have bad: "\<forall>k req. \<not> accepted ((\<lambda>k req. Response 503) k req)"
    by (simp add: accepted_def res_ok_def)
  from sendSignedWebhook_resolves [of "\<lambda>k m. ''ab''" 1700000000123 "\<lambda>k req. Response 503" "\<lambda>k. 7" example_opts] bad
  show ?thesis by simp
qed

section \<open>Properties of the routes\<close>

lemma slice_last4_append: "length suf = 4 \<Longrightarrow> slice_last4 (pre @ suf) = suf"
  by (simp add: slice_last4_def)

lemma createTransaction_fields:
  "snd (createTransaction uuid st t) = st\<lparr>transactions := (transactions st)(''TXN_'' @ toUpperCase (take 12 uuid) \<mapsto> fst (createTransaction uuid st t))\<rparr>"
  "fst (createTransaction uuid st t) = t\<lparr>txn_id := ''TXN_'' @ toUpperCase (take 12 uuid)\<rparr>"
  by (simp_all add: createTransaction_def Let_def)

lemma compute_outcome_v2orders:
  "compute_outcome st d = Outcome s fr bn st1 \<Longrightarrow> v2orders st1 = v2orders st"
  by (auto simp: compute_outcome_def updateBankAccountBalance_def Let_def
      split: if_splits option.splits)

lemma compute_outcome_status:
  "compute_outcome st d = Outcome s fr bn st1 \<Longrightarrow> s = ''success'' \<or> s = ''failed''"
  by (auto simp: compute_outcome_def Let_def split: if_splits option.splits)

text \<open>The route on a request that passes the schema, finds its order and gets an outcome.\<close>

lemma process_payment_outcome:
  assumes "processPaymentSchema reqbody = Some d" and "\<not> order_not_found st (orderId d)"
    and "compute_outcome st d = Outcome s fr bn st1"
  shows "fst (process_payment stringify env st reqbody) =
           (201, TransactionJson
              \<lparr>txn_id = ''TXN_'' @ toUpperCase (take 12 (uuid_txn env)), txn_orderId = orderId d,
               txn_amount = amount d, txn_paymentMethod = paymentMethod d,
               txn_bankAccountId = bankAccountId d, txn_bankName = bn, txn_status = s,
               txn_failureReason = fr, txn_timestamp = now_transaction env\<rparr>)"
    and "v2orders st (orderId d) = None \<Longrightarrow>
           snd (snd (process_payment stringify env st reqbody)) = None \<and>
           v2orders (fst (snd (process_payment stringify env st reqbody))) = v2orders st"
    and "v2orders st (orderId d) = Some v2 \<Longrightarrow>
           snd (snd (process_payment stringify env st reqbody)) \<noteq> None \<and>
           v2orders (fst (snd (process_payment stringify env st reqbody))) =
             (v2orders st)(orderId d \<mapsto>
                v2\<lparr>v2_status := (if s = ''success'' then ''COMPLETED'' else ''FAILED''),
                   paid_at := Some (now_paid env),
                   transaction_id := Some (''TXN_'' @ toUpperCase (take 12 (uuid_txn env)))\<rparr>)"
proof -
  from assms(3) have v: "v2orders st1 = v2orders st" by (rule compute_outcome_v2orders)
  show "fst (process_payment stringify env st reqbody) =
           (201, TransactionJson
              \<lparr>txn_id = ''TXN_'' @ toUpperCase (take 12 (uuid_txn env)), txn_orderId = orderId d,
               txn_amount = amount d, txn_paymentMethod = paymentMethod d,
               txn_bankAccountId = bankAccountId d, txn_bankName = bn, txn_status = s,
               txn_failureReason = fr, txn_timestamp = now_transaction env\<rparr>)"
    using assms v
    by (simp add: process_payment_def createTransaction_def mark_and_build_def Let_def
        split: option.splits)
  show "v2orders st (orderId d) = None \<Longrightarrow>
           snd (snd (process_payment stringify env st reqbody)) = None \<and>
           v2orders (fst (snd (process_payment stringify env st reqbody))) = v2orders st"
    using assms v
    by (simp add: process_payment_def createTransaction_def Let_def)
  show "v2orders st (orderId d) = Some v2 \<Longrightarrow>
           snd (snd (process_payment stringify env st reqbody)) \<noteq> None \<and>
           v2orders (fst (snd (process_payment stringify env st reqbody))) =
             (v2orders st)(orderId d \<mapsto>
                v2\<lparr>v2_status := (if s = ''success'' then ''COMPLETED'' else ''FAILED''),
                   paid_at := Some (now_paid env),
                   transaction_id := Some (''TXN_'' @ toUpperCase (take 12 (uuid_txn env)))\<rparr>)"
    using assms v
    by (simp add: process_payment_def createTransaction_def mark_and_build_def Let_def)
qed

text \<open>The route on every other request: no transaction, no change, no dispatch.\<close>

lemma process_payment_rejected:
  "processPaymentSchema reqbody = None \<Longrightarrow>
   process_payment stringify env st reqbody = ((400, ValidationFailedJson), st, None)"
  "processPaymentSchema reqbody = Some d \<Longrightarrow> order_not_found st (orderId d) \<Longrightarrow>
   process_payment stringify env st reqbody = ((404, ErrorJson ''Order not found''), st, None)"
  "processPaymentSchema reqbody = Some d \<Longrightarrow> \<not> order_not_found st (orderId d) \<Longrightarrow>
   compute_outcome st d = BankAccountNotFound \<Longrightarrow>
   process_payment stringify env st reqbody = ((404, ErrorJson ''Bank account not found''), st, None)"
  by (simp_all add: process_payment_def)

lemma card_body_parsed:
  "processPaymentSchema (card_body oid num) =
     Some \<lparr>orderId = oid, amount = 49900, paymentMethod = ''card'', bankAccountId = None,
           cardDetails = Some \<lparr>cardNumber = num, expiry = ''12/30'', cvv = ''123'',
                                cardHolderName = ''Test''\<rparr>,
           upiId = None\<rparr>"
  by (simp add: card_body_def processPaymentSchema_def cardDetailsSchema_def z_object_def
      z_string_def z_number_def z_enum_def z_optional_def)

lemma bare_body_parsed:
  "method \<in> set [''card'', ''upi'', ''netbanking''] \<Longrightarrow>
   processPaymentSchema (bare_body oid method) =
     Some \<lparr>orderId = oid, amount = 49900, paymentMethod = method, bankAccountId = None,
           cardDetails = None, upiId = None\<rparr>"
  by (simp add: bare_body_def processPaymentSchema_def z_object_def
      z_string_def z_number_def z_enum_def z_optional_def)

lemma compute_outcome_card:
  "paymentMethod d = ''card'' \<Longrightarrow> cardDetails d = Some cd \<Longrightarrow>
   compute_outcome st d =
     (if slice_last4 (cardNumber cd) = ''0000'' then
        Outcome ''failed'' (Some ''Card declined by issuer'') None st
      else if slice_last4 (cardNumber cd) = ''1111'' then
        Outcome ''failed'' (Some ''Insufficient funds'') None st
      else Outcome ''success'' None None st)"
  by (simp add: compute_outcome_def Let_def)

lemma compute_outcome_no_details:
  "(paymentMethod d = ''card'' \<and> cardDetails d = None) \<or>
   (paymentMethod d = ''upi'' \<and> upiId d = None) \<or>
   (paymentMethod d = ''netbanking'' \<and> bankAccountId d = None) \<Longrightarrow>
   compute_outcome st d = Outcome ''success'' None None st"
  by (auto simp: compute_outcome_def truthy_def)

lemma process_payment_dispatch_terminal:
  "snd (snd (process_payment stringify env st reqbody)) \<noteq> None \<Longrightarrow>
   \<exists>d v2. processPaymentSchema reqbody = Some d \<and> v2orders st (orderId d) = Some v2 \<and>
     fst (fst (process_payment stringify env st reqbody)) = 201 \<and>
     (status_of (fst (snd (process_payment stringify env st reqbody))) (orderId d) = Some ''COMPLETED'' \<or>
      status_of (fst (snd (process_payment stringify env st reqbody))) (orderId d) = Some ''FAILED'')"
proof -
  assume disp: "snd (snd (process_payment stringify env st reqbody)) \<noteq> None"
  then obtain d where d: "processPaymentSchema reqbody = Some d"
    by (cases "processPaymentSchema reqbody") (simp_all add: process_payment_rejected)
  from disp d have found: "\<not> order_not_found st (orderId d)"
    by (auto simp: process_payment_rejected)
  from disp d found obtain s fr bn st1 where out: "compute_outcome st d = Outcome s fr bn st1"
    by (cases "compute_outcome st d") (simp_all add: process_payment_rejected)
  from disp process_payment_outcome(2) [OF d found out] obtain v2 where
    v2: "v2orders st (orderId d) = Some v2"
    by (cases "v2orders st (orderId d)") auto
  from process_payment_outcome(1) [OF d found out] process_payment_outcome(3) [OF d found out v2] d v2
  show ?thesis
    by (simp add: status_of_def)
qed

lemma example_found:
  "\<not> order_not_found example_storage ''gw_1a2b3c4d''"
  "\<not> order_not_found example_storage ''ORD_1A2B3C4D''"
  by (simp_all add: order_not_found_def example_storage_def)

lemma example_lookup:
  "v2orders example_storage ''gw_1a2b3c4d'' = Some example_v2order"
  "v2orders example_storage ''ORD_1A2B3C4D'' = None"
  by (simp_all add: example_storage_def)

lemma store_webhook_then [simp]: "fst (webhook_then cb r srv) = fst srv"
  by (simp add: webhook_then_def)

lemma compute_outcome_orders:
  "compute_outcome st d = Outcome s fr bn st1 \<Longrightarrow> orders st1 = orders st"
  by (auto simp: compute_outcome_def updateBankAccountBalance_def Let_def
      split: if_splits option.splits)

lemma process_payment_orders:
  "orders (fst (snd (process_payment stringify env st reqbody))) = orders st"
proof (cases "processPaymentSchema reqbody")
  case None
  then show ?thesis by (simp add: process_payment_rejected)
next
  case (Some d)
  show ?thesis
  proof (cases "order_not_found st (orderId d)")
    case True
    with Some show ?thesis by (simp add: process_payment_rejected)
  next
    case False
    show ?thesis
    proof (cases "compute_outcome st d")
      case BankAccountNotFound
      with Some False show ?thesis by (simp add: process_payment_rejected)
    next
      case (Outcome s fr bn st1)
      with Some False compute_outcome_orders [OF Outcome] show ?thesis
        by (simp add: process_payment_def createTransaction_def mark_and_build_def Let_def
            split: option.splits)
    qed
  qed
qed

lemma example_after_first_v2orders:
  "v2orders example_after_first =
     (v2orders example_storage)(''gw_1a2b3c4d'' \<mapsto>
        example_v2order\<lparr>v2_status := ''COMPLETED'', paid_at := Some (now_paid example_env),
          transaction_id := Some (''TXN_'' @ toUpperCase (take 12 (uuid_txn example_env)))\<rparr>)"
proof -
  let ?d = "\<lparr>orderId = ''gw_1a2b3c4d'', amount = 49900, paymentMethod = ''card'', bankAccountId = None,
           cardDetails = Some \<lparr>cardNumber = ''4242424242424242'', expiry = ''12/30'', cvv = ''123'',
                                cardHolderName = ''Test''\<rparr>,
           upiId = None\<rparr>"
  have parsed: "processPaymentSchema (card_body ''gw_1a2b3c4d'' ''4242424242424242'') = Some ?d"
    by (rule card_body_parsed)
  have v2: "v2orders example_storage (orderId ?d) = Some example_v2order"
    by (simp add: example_lookup)
  have found: "\<not> order_not_found example_storage (orderId ?d)"
    by (simp add: example_found)
  have out: "compute_outcome example_storage ?d = Outcome ''success'' None None example_storage"
    by (simp add: compute_outcome_card slice_last4_def)
  from process_payment_outcome(3) [OF parsed found out v2, of example_stringify example_env]
  show ?thesis
    by (simp add: example_after_first_def)
qed

lemma example_after_first_found: "\<not> order_not_found example_after_first ''gw_1a2b3c4d''"
  by (simp add: order_not_found_def example_after_first_v2orders)

lemma example_after_first_status: "status_of example_after_first ''gw_1a2b3c4d'' = Some ''COMPLETED''"
  by (simp add: status_of_def example_after_first_v2orders)

text \<open>A second event on the order that is already \<open>COMPLETED\<close>, with the outcome \<open>s\<close>.\<close>

lemma example_second_event:
  assumes "compute_outcome example_after_first
     \<lparr>orderId = ''gw_1a2b3c4d'', amount = 49900, paymentMethod = ''card'', bankAccountId = None,
      cardDetails = Some \<lparr>cardNumber = num, expiry = ''12/30'', cvv = ''123'', cardHolderName = ''Test''\<rparr>,
      upiId = None\<rparr> = Outcome s fr None example_after_first"
  shows "snd (snd (process_payment example_stringify example_env2 example_after_first
            (card_body ''gw_1a2b3c4d'' num))) \<noteq> None"
    and "status_of (fst (snd (process_payment example_stringify example_env2 example_after_first
            (card_body ''gw_1a2b3c4d'' num)))) ''gw_1a2b3c4d'' =
          Some (if s = ''success'' then ''COMPLETED'' else ''FAILED'')"
    and "fst (fst (process_payment example_stringify example_env2 example_after_first
            (card_body ''gw_1a2b3c4d'' num))) = 201"
proof -
  let ?d = "\<lparr>orderId = ''gw_1a2b3c4d'', amount = 49900, paymentMethod = ''card'', bankAccountId = None,
      cardDetails = Some \<lparr>cardNumber = num, expiry = ''12/30'', cvv = ''123'', cardHolderName = ''Test''\<rparr>,
      upiId = None\<rparr>"
  have parsed: "processPaymentSchema (card_body ''gw_1a2b3c4d'' num) = Some ?d"
    by (rule card_body_parsed)
  have found: "\<not> order_not_found example_after_first (orderId ?d)"
    by (simp add: example_after_first_found)
  obtain v2 where v2: "v2orders example_after_first (orderId ?d) = Some v2"
    by (simp add: example_after_first_v2orders)
  note ev = process_payment_outcome(3) [OF parsed found assms v2, of example_stringify example_env2]
  from ev show "snd (snd (process_payment example_stringify example_env2 example_after_first
            (card_body ''gw_1a2b3c4d'' num))) \<noteq> None"
    by simp
  from ev show "status_of (fst (snd (process_payment example_stringify example_env2 example_after_first
            (card_body ''gw_1a2b3c4d'' num)))) ''gw_1a2b3c4d'' =
          Some (if s = ''success'' then ''COMPLETED'' else ''FAILED'')"
    by (simp add: status_of_def)
  from process_payment_outcome(1) [OF parsed found assms, of example_stringify example_env2]
  show "fst (fst (process_payment example_stringify example_env2 example_after_first
            (card_body ''gw_1a2b3c4d'' num))) = 201"
    by simp
qed

lemma order_body_parsed:
  assumes "zod_url ru" and "zod_url cu"
  shows "createOrderV2Schema zod_url (order_body 49900 ru cu) =
     Some \<lparr>in_merchant_id = ''mer_test'', in_order_id = ''order_test_1'',
           in_one_time_order_token = None, in_amount_in_paisa = 49900, in_currency = ''INR'',
           in_display_amount = None, in_customer = None, in_plan = None,
           in_return_url = ru, in_callback_url = cu, in_test_mode = Some True,
           in_metadata = None, in_idempotency_key = None\<rparr>"
  using assms
  by (simp add: order_body_def createOrderV2Schema_def z_object_def z_string_def z_number_def
      z_boolean_def z_optional_def z_check_def)

lemma order_body_amount_zero:
  "createOrderV2Schema zod_url (order_body 0 ru cu) = None"
  by (simp add: order_body_def createOrderV2Schema_def z_object_def z_string_def z_number_def
      z_boolean_def z_optional_def z_check_def)

lemma order_body_bad_url:
  "\<not> zod_url ru \<Longrightarrow> createOrderV2Schema zod_url (order_body amt ru cu) = None"
  by (simp add: order_body_def createOrderV2Schema_def z_object_def z_string_def z_number_def
      z_boolean_def z_optional_def z_check_def Option.bind_eq_None_conv)

text \<open>
  C2, as the specification states it: an order's status moves forward at most once, and the
  replay of a payment-processing event for an order already in a terminal state performs no
  second transition and starts no second webhook dispatch. The route has no check of the
  current status: on the order that a first event has moved to \<open>COMPLETED\<close>, replaying
  the same card payment starts a second dispatch, and a declined card payment moves the
  order on to \<open>FAILED\<close> and starts a dispatch as well.
\<close>

theorem process_payment_replay_counterexample:
  "status_of example_storage ''gw_1a2b3c4d'' = Some ''CREATED'' \<and>
   status_of example_after_first ''gw_1a2b3c4d'' = Some ''COMPLETED'' \<and>
   snd (snd (process_payment example_stringify example_env2 example_after_first
      (card_body ''gw_1a2b3c4d'' ''4242424242424242''))) \<noteq> None \<and>
   snd (snd (process_payment example_stringify example_env2 example_after_first
      (card_body ''gw_1a2b3c4d'' ''4000000000000000''))) \<noteq> None \<and>
   status_of (fst (snd (process_payment example_stringify example_env2 example_after_first
      (card_body ''gw_1a2b3c4d'' ''4000000000000000'')))) ''gw_1a2b3c4d'' = Some ''FAILED''"
proof -
  have created: "status_of example_storage ''gw_1a2b3c4d'' = Some ''CREATED''"
    by (simp add: status_of_def example_storage_def example_v2order_def)
  have good: "compute_outcome example_after_first
     \<lparr>orderId = ''gw_1a2b3c4d'', amount = 49900, paymentMethod = ''card'', bankAccountId = None,
      cardDetails = Some \<lparr>cardNumber = ''4242424242424242'', expiry = ''12/30'', cvv = ''123'',
                           cardHolderName = ''Test''\<rparr>,
      upiId = None\<rparr> = Outcome ''success'' None None example_after_first"
    by (simp add: compute_outcome_card slice_last4_def)
  have declined: "compute_outcome example_after_first
     \<lparr>orderId = ''gw_1a2b3c4d'', amount = 49900, paymentMethod = ''card'', bankAccountId = None,
      cardDetails = Some \<lparr>cardNumber = ''4000000000000000'', expiry = ''12/30'', cvv = ''123'',
                           cardHolderName = ''Test''\<rparr>,
      upiId = None\<rparr> = Outcome ''failed'' (Some ''Card declined by issuer'') None example_after_first"
    by (simp add: compute_outcome_card slice_last4_def)
  show ?thesis
    using created example_after_first_status example_second_event(1) [OF good]
      example_second_event(1,2) [OF declined]
    by simp
qed

text \<open>
  C2, amended: a payment-processing event never puts a v2 order into \<open>CREATED\<close> (an order
  found \<open>CREATED\<close> afterwards was \<open>CREATED\<close> before) and changes no v2 order other than
  the one it names; every event answered 201 for an existing v2 order, whatever the current
  status of that order, sets the status to \<open>COMPLETED\<close> when the transaction succeeded and
  to \<open>FAILED\<close> otherwise, and starts one webhook dispatch; no other event starts a dispatch.
\<close>

theorem process_payment_status_transitions:
  assumes "processPaymentSchema reqbody = Some d"
  shows
    "(\<forall>oid. status_of (fst (snd (process_payment stringify env st reqbody))) oid = Some ''CREATED'' \<longrightarrow>
        status_of st oid = Some ''CREATED'') \<and>
     (\<forall>oid. oid \<noteq> orderId d \<longrightarrow>
        v2orders (fst (snd (process_payment stringify env st reqbody))) oid = v2orders st oid) \<and>
     (fst (fst (process_payment stringify env st reqbody)) = 201 \<and> v2orders st (orderId d) \<noteq> None \<longrightarrow>
        status_of (fst (snd (process_payment stringify env st reqbody))) (orderId d) =
          Some (if map_option txn_status (txn_of (fst (process_payment stringify env st reqbody))) =
                     Some ''success''
                then ''COMPLETED'' else ''FAILED'') \<and>
        snd (snd (process_payment stringify env st reqbody)) \<noteq> None) \<and>
     (snd (snd (process_payment stringify env st reqbody)) \<noteq> None \<longrightarrow>
        fst (fst (process_payment stringify env st reqbody)) = 201 \<and> v2orders st (orderId d) \<noteq> None)"
proof (cases "order_not_found st (orderId d)")
  case True
  with assms show ?thesis by (simp add: process_payment_rejected)
next
  case found: False
  show ?thesis
  proof (cases "compute_outcome st d")
    case BankAccountNotFound
    with assms found show ?thesis by (simp add: process_payment_rejected)
  next
    case (Outcome s fr bn st1)
    note resp = process_payment_outcome(1) [OF assms found Outcome, of stringify env]
    show ?thesis
    proof (cases "v2orders st (orderId d)")
      case None
      from process_payment_outcome(2) [OF assms found Outcome None, of stringify env] None resp
      show ?thesis by (simp add: status_of_def)
    next
      case (Some v2)
      from process_payment_outcome(3) [OF assms found Outcome Some, of stringify env] Some resp
      show ?thesis by (auto simp: status_of_def txn_of_def)
    qed
  qed
qed

theorem process_payment_status_transitions_witness:
  "processPaymentSchema (card_body ''gw_1a2b3c4d'' ''4000000000000000'') =
     Some \<lparr>orderId = ''gw_1a2b3c4d'', amount = 49900, paymentMethod = ''card'', bankAccountId = None,
           cardDetails = Some \<lparr>cardNumber = ''4000000000000000'', expiry = ''12/30'', cvv = ''123'',
                                cardHolderName = ''Test''\<rparr>,
           upiId = None\<rparr> \<and>
   status_of example_after_first ''gw_1a2b3c4d'' = Some ''COMPLETED'' \<and>
   fst (fst (process_payment example_stringify example_env2 example_after_first
      (card_body ''gw_1a2b3c4d'' ''4000000000000000''))) = 201 \<and>
   v2orders example_after_first ''gw_1a2b3c4d'' \<noteq> None \<and>
   status_of (fst (snd (process_payment example_stringify example_env2 example_after_first
      (card_body ''gw_1a2b3c4d'' ''4000000000000000'')))) ''gw_1a2b3c4d'' = Some ''FAILED'' \<and>
   snd (snd (process_payment example_stringify example_env2 example_after_first
      (card_body ''gw_1a2b3c4d'' ''4000000000000000''))) \<noteq> None \<and>
   ''gw_5e6f7a8b'' \<noteq> ''gw_1a2b3c4d'' \<and>
   v2orders (fst (snd (process_payment example_stringify example_env2 example_after_first
      (card_body ''gw_1a2b3c4d'' ''4000000000000000'')))) ''gw_5e6f7a8b'' =
     v2orders example_after_first ''gw_5e6f7a8b'' \<and>
   status_of (fst (snd (process_payment example_stringify example_env2 example_after_first
      (card_body ''gw_1a2b3c4d'' ''4000000000000000'')))) ''gw_5e6f7a8b'' = Some ''CREATED'' \<and>
   status_of example_after_first ''gw_5e6f7a8b'' = Some ''CREATED''"
proof -
  let ?d = "\<lparr>orderId = ''gw_1a2b3c4d'', amount = 49900, paymentMethod = ''card'', bankAccountId = None,
           cardDetails = Some \<lparr>cardNumber = ''4000000000000000'', expiry = ''12/30'', cvv = ''123'',
                                cardHolderName = ''Test''\<rparr>,
           upiId = None\<rparr>"
  let ?run = "process_payment example_stringify example_env2 example_after_first
      (card_body ''gw_1a2b3c4d'' ''4000000000000000'')"
  have parsed: "processPaymentSchema (card_body ''gw_1a2b3c4d'' ''4000000000000000'') = Some ?d"
    by (rule card_body_parsed)
  have declined: "compute_outcome example_after_first ?d =
      Outcome ''failed'' (Some ''Card declined by issuer'') None example_after_first"
    by (simp add: compute_outcome_card slice_last4_def)
  have created: "fst (fst ?run) = 201"
    by (rule example_second_event(3) [OF declined])
  have present: "v2orders example_after_first (orderId ?d) \<noteq> None"
    by (simp add: example_after_first_v2orders)
  have other: "''gw_5e6f7a8b'' \<noteq> orderId ?d"
    by simp
  have other_before: "status_of example_after_first ''gw_5e6f7a8b'' = Some ''CREATED''"
    by (simp add: status_of_def example_after_first_v2orders example_storage_def example_v2order_def)
  note t = process_payment_status_transitions [OF parsed, of example_stringify example_env2
      example_after_first]
  from t other have same: "v2orders (fst (snd ?run)) ''gw_5e6f7a8b'' = v2orders example_after_first ''gw_5e6f7a8b''"
    by blast
  then have other_after: "status_of (fst (snd ?run)) ''gw_5e6f7a8b'' = Some ''CREATED''"
    using other_before by (simp add: status_of_def)
  have txn: "map_option txn_status (txn_of (fst ?run)) = Some ''failed''"
    using process_payment_outcome(1) [OF parsed _ declined, of example_stringify example_env2]
    by (simp add: txn_of_def example_after_first_found)
  from t created present have
    "status_of (fst (snd ?run)) (orderId ?d) =
       Some (if map_option txn_status (txn_of (fst ?run)) = Some ''success''
             then ''COMPLETED'' else ''FAILED'')" and disp: "snd (snd ?run) \<noteq> None"
    by blast+
  then have failed: "status_of (fst (snd ?run)) ''gw_1a2b3c4d'' = Some ''FAILED''"
    unfolding txn by simp
  from parsed example_after_first_status created present failed disp same other_after other_before
  show ?thesis by simp
qed

text \<open>
  C6. For a payment-processing event that is answered 201 for a v2 order, the storage after
  the delivery has run and its callback has fired is the storage the route left: the order
  has the terminal status set before the dispatch (\<open>COMPLETED\<close> for a successful
  transaction, \<open>FAILED\<close> otherwise), for every behaviour of the endpoint. When every
  delivery attempt fails, the only effect of the exhausted dispatch is one line on the
  console. The callback leaves the storage of any server state as it is (lemma
  \<open>store_webhook_then\<close>), also when other requests ran in between.
\<close>

theorem delivery_outcome_keeps_status:
  assumes "processPaymentSchema reqbody = Some d"
    and "v2orders st (orderId d) = Some v2"
    and "fst (fst (process_payment stringify env st reqbody)) = 201"
  shows
    "fst (process_payment_and_deliver stringify hmac env now fetch random (st, console) reqbody) =
       fst (process_payment stringify env st reqbody) \<and>
     fst (snd (process_payment_and_deliver stringify hmac env now fetch random (st, console) reqbody)) =
       fst (snd (process_payment stringify env st reqbody)) \<and>
     status_of (fst (snd (process_payment_and_deliver stringify hmac env now fetch random (st, console) reqbody)))
         (orderId d) =
       Some (if map_option txn_status (txn_of (fst (process_payment stringify env st reqbody))) = Some ''success''
             then ''COMPLETED'' else ''FAILED'') \<and>
     ((\<forall>k req. \<not> accepted (fetch k req)) \<longrightarrow>
        snd (snd (process_payment_and_deliver stringify hmac env now fetch random (st, console) reqbody)) =
          console @ [''Webhook delivery failed for '' @ callback_url v2])"
proof -
  from assms(1,3) have found: "\<not> order_not_found st (orderId d)"
    by (auto simp: process_payment_rejected)
  from assms(1,3) found obtain s fr bn st1 where out: "compute_outcome st d = Outcome s fr bn st1"
    by (cases "compute_outcome st d") (simp_all add: process_payment_rejected)
  note resp = process_payment_outcome(1) [OF assms(1) found out, of stringify env]
  note marked = process_payment_outcome(3) [OF assms(1) found out assms(2), of stringify env]
  obtain r st' opts where run: "process_payment stringify env st reqbody = (r, st', Some opts)"
    using marked by (cases "process_payment stringify env st reqbody") auto
  have same: "fst (snd (process_payment_and_deliver stringify hmac env now fetch random (st, console) reqbody)) = st'"
    and same_resp: "fst (process_payment_and_deliver stringify hmac env now fetch random (st, console) reqbody) = r"
    by (simp_all add: process_payment_and_deliver_def run)
  have st: "status_of st' (orderId d) = Some (if s = ''success'' then ''COMPLETED'' else ''FAILED'')"
    using marked by (simp add: run status_of_def)
  have txn: "map_option txn_status (txn_of r) = Some s"
    using resp by (simp add: run txn_of_def)
  have cb: "url opts = callback_url v2"
    using assms(1,2) found out run compute_outcome_v2orders [OF out]
    by (auto simp: process_payment_def createTransaction_def mark_and_build_def Let_def)
  have log: "(\<forall>k req. \<not> accepted (fetch k req)) \<longrightarrow>
        snd (snd (process_payment_and_deliver stringify hmac env now fetch random (st, console) reqbody)) =
          console @ [''Webhook delivery failed for '' @ callback_url v2]"
  proof
    assume fail: "\<forall>k req. \<not> accepted (fetch k req)"
    obtain maxR ts sg where unfold:
      "sendSignedWebhook hmac now fetch random opts = attempt_loop fetch random opts maxR ts sg 0"
      by (simp add: sendSignedWebhook_def)
    from attempt_loop_all_fail [OF fail, of random opts maxR ts sg 0]
    have "\<not> success (fst (sendSignedWebhook hmac now fetch random opts))"
      by (simp add: unfold)
    then show "snd (snd (process_payment_and_deliver stringify hmac env now fetch random (st, console) reqbody)) =
          console @ [''Webhook delivery failed for '' @ callback_url v2]"
      by (simp add: process_payment_and_deliver_def run webhook_then_def cb)
  qed
  from same same_resp st txn log show ?thesis
    by (auto simp: run)
qed

theorem delivery_outcome_keeps_status_witness:
  "processPaymentSchema (card_body ''gw_1a2b3c4d'' ''4242424242424242'') =
     Some \<lparr>orderId = ''gw_1a2b3c4d'', amount = 49900, paymentMethod = ''card'', bankAccountId = None,
           cardDetails = Some \<lparr>cardNumber = ''4242424242424242'', expiry = ''12/30'', cvv = ''123'',
                                cardHolderName = ''Test''\<rparr>,
           upiId = None\<rparr> \<and>
   v2orders example_storage ''gw_1a2b3c4d'' = Some example_v2order \<and>
   fst (fst (process_payment example_stringify example_env example_storage
     (card_body ''gw_1a2b3c4d'' ''4242424242424242''))) = 201 \<and>
   (\<forall>k req. \<not> accepted ((\<lambda>k req. Response 500) k req)) \<and>
   status_of (fst (snd (process_payment_and_deliver example_stringify (\<lambda>k m. ''ab'') example_env
       1700000000123 (\<lambda>k req. Response 500) (\<lambda>k. 7) (example_storage, [])
       (card_body ''gw_1a2b3c4d'' ''4242424242424242'')))) ''gw_1a2b3c4d'' = Some ''COMPLETED'' \<and>
   snd (snd (process_payment_and_deliver example_stringify (\<lambda>k m. ''ab'') example_env
       1700000000123 (\<lambda>k req. Response 500) (\<lambda>k. 7) (example_storage, [])
       (card_body ''gw_1a2b3c4d'' ''4242424242424242''))) =
     [''Webhook delivery failed for http://localhost:6000/webhook'']"
proof -
  let ?d = "\<lparr>orderId = ''gw_1a2b3c4d'', amount = 49900, paymentMethod = ''card'', bankAccountId = None,
           cardDetails = Some \<lparr>cardNumber = ''4242424242424242'', expiry = ''12/30'', cvv = ''123'',
                                cardHolderName = ''Test''\<rparr>,
           upiId = None\<rparr>"
  have parsed: "processPaymentSchema (card_body ''gw_1a2b3c4d'' ''4242424242424242'') = Some ?d"
    by (rule card_body_parsed)
  have v2: "v2orders example_storage (orderId ?d) = Some example_v2order"
    by (simp add: example_lookup)
  have found: "\<not> order_not_found example_storage (orderId ?d)"
    by (simp add: example_found)
  have out: "compute_outcome example_storage ?d = Outcome ''success'' None None example_storage"
    by (simp add: compute_outcome_card slice_last4_def)
  have created: "fst (fst (process_payment example_stringify example_env example_storage
     (card_body ''gw_1a2b3c4d'' ''4242424242424242''))) = 201"
    and txn: "map_option txn_status (txn_of (fst (process_payment example_stringify example_env
       example_storage (card_body ''gw_1a2b3c4d'' ''4242424242424242'')))) = Some ''success''"
    using process_payment_outcome(1) [OF parsed found out, of example_stringify example_env]
    by (simp_all add: txn_of_def)
  have bad: "\<forall>k req. \<not> accepted ((\<lambda>k req. Response 500) k req)"
    by (simp add: accepted_def res_ok_def)
  have cb: "callback_url example_v2order = ''http://localhost:6000/webhook''"
    by (simp add: example_v2order_def)
  note run = delivery_outcome_keeps_status [OF parsed v2 created, of "\<lambda>k m. ''ab''" 1700000000123
      "\<lambda>k req. Response 500" "\<lambda>k. 7" "[]"]
  from run have "status_of (fst (snd (process_payment_and_deliver example_stringify (\<lambda>k m. ''ab'')
       example_env 1700000000123 (\<lambda>k req. Response 500) (\<lambda>k. 7) (example_storage, [])
       (card_body ''gw_1a2b3c4d'' ''4242424242424242'')))) (orderId ?d) =
     Some (if map_option txn_status (txn_of (fst (process_payment example_stringify example_env
       example_storage (card_body ''gw_1a2b3c4d'' ''4242424242424242'')))) = Some ''success''
       then ''COMPLETED'' else ''FAILED'')"
    by blast
  then have kept: "status_of (fst (snd (process_payment_and_deliver example_stringify (\<lambda>k m. ''ab'')
       example_env 1700000000123 (\<lambda>k req. Response 500) (\<lambda>k. 7) (example_storage, [])
       (card_body ''gw_1a2b3c4d'' ''4242424242424242'')))) ''gw_1a2b3c4d'' = Some ''COMPLETED''"
    unfolding txn by simp
  from run bad have logged: "snd (snd (process_payment_and_deliver example_stringify (\<lambda>k m. ''ab'')
       example_env 1700000000123 (\<lambda>k req. Response 500) (\<lambda>k. 7) (example_storage, [])
       (card_body ''gw_1a2b3c4d'' ''4242424242424242''))) =
     [] @ [''Webhook delivery failed for '' @ callback_url example_v2order]"
    by blast
  from parsed v2 created bad kept logged cb show ?thesis
    by simp
qed

text \<open>
  C7, as the specification states it: a v2 order-creation request is rejected with 400 and
  \<open>ERR_URL_NOT_REGISTERED\<close> if and only if one of its two URLs does not parse or is
  neither HTTPS nor local. The schema is checked first: a request whose \<open>return_url\<close> is
  plain HTTP on a foreign host and whose \<open>amount_in_paisa\<close> is 0 is answered 400
  \<open>Validation failed\<close>, not \<open>ERR_URL_NOT_REGISTERED\<close>; and with the URL check of zod 3
  (\<open>example_zod_url\<close>) so is a request whose \<open>return_url\<close> does not parse.
\<close>

theorem create_order_v2_validation_counterexample:
  "url_rejected example_parseURL ''http://merchant.example/return'' \<and>
   create_order_v2_route example_zod_url example_parseURL example_v2_env example_storage
      (order_body 0 ''http://merchant.example/return'' ''http://merchant.example/hook'') =
     ((400, ValidationFailedJson), example_storage) \<and>
   \<not> is_url_not_registered (fst (create_order_v2_route example_zod_url example_parseURL
      example_v2_env example_storage
      (order_body 0 ''http://merchant.example/return'' ''http://merchant.example/hook''))) \<and>
   url_rejected example_parseURL ''not a url'' \<and>
   \<not> is_url_not_registered (fst (create_order_v2_route example_zod_url example_parseURL
      example_v2_env example_storage
      (order_body 49900 ''not a url'' ''https://merchant.example/hook'')))"
proof -
  have r1: "url_rejected example_parseURL ''http://merchant.example/return''"
    and r2: "url_rejected example_parseURL ''not a url''"
    by (simp_all add: url_rejected_def example_parseURL_def url_ok_def)
  have "\<not> example_zod_url ''not a url''"
    by (simp add: example_zod_url_def example_parseURL_def)
  then have "createOrderV2Schema example_zod_url
      (order_body 49900 ''not a url'' ''https://merchant.example/hook'') = None"
    by (rule order_body_bad_url)
  with r1 r2 show ?thesis
    by (simp add: create_order_v2_route_def order_body_amount_zero is_url_not_registered_def)
qed

text \<open>
  C7, amended: a request that fails the schema is answered 400 \<open>Validation failed\<close> and no
  order is created, whatever its URLs. For every request that passes the schema, the
  request is rejected with 400 and \<open>ERR_URL_NOT_REGISTERED\<close>, and the storage is unchanged,
  if and only if \<open>return_url\<close> or \<open>callback_url\<close> does not parse or is neither an HTTPS
  URL nor a URL whose hostname is \<open>localhost\<close> or \<open>127.0.0.1\<close>; otherwise the answer is
  201 and the order is stored in state \<open>CREATED\<close>.
\<close>

theorem create_order_v2_url_rule:
  "(createOrderV2Schema zod_url reqbody = None \<longrightarrow>
      create_order_v2_route zod_url parseURL env st reqbody = ((400, ValidationFailedJson), st)) \<and>
   (\<forall>d. createOrderV2Schema zod_url reqbody = Some d \<longrightarrow>
      ((is_url_not_registered (fst (create_order_v2_route zod_url parseURL env st reqbody)) \<and>
        snd (create_order_v2_route zod_url parseURL env st reqbody) = st) =
       (url_rejected parseURL (in_return_url d) \<or> url_rejected parseURL (in_callback_url d))) \<and>
      (\<not> (url_rejected parseURL (in_return_url d) \<or> url_rejected parseURL (in_callback_url d)) \<longrightarrow>
         fst (fst (create_order_v2_route zod_url parseURL env st reqbody)) = 201 \<and>
         status_of (snd (create_order_v2_route zod_url parseURL env st reqbody))
           (''gw_'' @ take 8 (uuid_order env)) = Some ''CREATED''))"
  by (auto simp: create_order_v2_route_def is_url_not_registered_def url_rejected_def
      createOrderV2_def Let_def status_of_def split: option.splits)

theorem create_order_v2_url_rule_witness:
  "createOrderV2Schema example_zod_url
      (order_body 49900 ''http://merchant.example/return'' ''https://merchant.example/hook'') \<noteq> None \<and>
   url_rejected example_parseURL ''http://merchant.example/return'' \<and>
   is_url_not_registered (fst (create_order_v2_route example_zod_url example_parseURL example_v2_env
      example_storage
      (order_body 49900 ''http://merchant.example/return'' ''https://merchant.example/hook''))) \<and>
   snd (create_order_v2_route example_zod_url example_parseURL example_v2_env example_storage
      (order_body 49900 ''http://merchant.example/return'' ''https://merchant.example/hook'')) =
     example_storage \<and>
   createOrderV2Schema example_zod_url
      (order_body 49900 ''http://localhost:5000/pay/return'' ''https://merchant.example/hook'') \<noteq> None \<and>
   \<not> url_rejected example_parseURL ''http://localhost:5000/pay/return'' \<and>
   \<not> url_rejected example_parseURL ''https://merchant.example/hook'' \<and>
   fst (fst (create_order_v2_route example_zod_url example_parseURL example_v2_env example_storage
      (order_body 49900 ''http://localhost:5000/pay/return'' ''https://merchant.example/hook''))) = 201 \<and>
   status_of (snd (create_order_v2_route example_zod_url example_parseURL example_v2_env example_storage
      (order_body 49900 ''http://localhost:5000/pay/return'' ''https://merchant.example/hook'')))
     ''gw_9f8e7d6c'' = Some ''CREATED'' \<and>
   createOrderV2Schema example_zod_url
      (order_body 0 ''http://localhost:5000/pay/return'' ''https://merchant.example/hook'') = None \<and>
   create_order_v2_route example_zod_url example_parseURL example_v2_env example_storage
      (order_body 0 ''http://localhost:5000/pay/return'' ''https://merchant.example/hook'') =
     ((400, ValidationFailedJson), example_storage)"
proof -
  have z: "example_zod_url ''http://merchant.example/return''"
    "example_zod_url ''https://merchant.example/hook''"
    "example_zod_url ''http://localhost:5000/pay/return''"
    by (simp_all add: example_zod_url_def example_parseURL_def)
  note bad = order_body_parsed [of example_zod_url "''http://merchant.example/return''"
      "''https://merchant.example/hook''", OF z(1) z(2)]
  note good = order_body_parsed [of example_zod_url "''http://localhost:5000/pay/return''"
      "''https://merchant.example/hook''", OF z(3) z(2)]
  have u: "url_rejected example_parseURL ''http://merchant.example/return''"
    "\<not> url_rejected example_parseURL ''http://localhost:5000/pay/return''"
    "\<not> url_rejected example_parseURL ''https://merchant.example/hook''"
    by (simp_all add: url_rejected_def example_parseURL_def url_ok_def)
  have g: "''gw_'' @ take 8 (uuid_order example_v2_env) = ''gw_9f8e7d6c''"
    by (simp add: example_v2_env_def)
  note t1 = create_order_v2_url_rule [of example_zod_url
      "order_body 49900 ''http://merchant.example/return'' ''https://merchant.example/hook''"
      example_parseURL example_v2_env example_storage]
  note t2 = create_order_v2_url_rule [of example_zod_url
      "order_body 49900 ''http://localhost:5000/pay/return'' ''https://merchant.example/hook''"
      example_parseURL example_v2_env example_storage]
  note t3 = create_order_v2_url_rule [of example_zod_url
      "order_body 0 ''http://localhost:5000/pay/return'' ''https://merchant.example/hook''"
      example_parseURL example_v2_env example_storage]
  from t1 bad u(1) have c1:
    "is_url_not_registered (fst (create_order_v2_route example_zod_url example_parseURL example_v2_env
      example_storage
      (order_body 49900 ''http://merchant.example/return'' ''https://merchant.example/hook'')))"
    "snd (create_order_v2_route example_zod_url example_parseURL example_v2_env example_storage
      (order_body 49900 ''http://merchant.example/return'' ''https://merchant.example/hook'')) =
     example_storage"
    by simp_all
  from t2 good u(2,3) have c2:
    "fst (fst (create_order_v2_route example_zod_url example_parseURL example_v2_env example_storage
      (order_body 49900 ''http://localhost:5000/pay/return'' ''https://merchant.example/hook''))) = 201"
    "status_of (snd (create_order_v2_route example_zod_url example_parseURL example_v2_env example_storage
      (order_body 49900 ''http://localhost:5000/pay/return'' ''https://merchant.example/hook'')))
     (''gw_'' @ take 8 (uuid_order example_v2_env)) = Some ''CREATED''"
    by simp_all
  from t3 have c3:
    "create_order_v2_route example_zod_url example_parseURL example_v2_env example_storage
      (order_body 0 ''http://localhost:5000/pay/return'' ''https://merchant.example/hook'') =
     ((400, ValidationFailedJson), example_storage)"
    by (simp add: order_body_amount_zero)
  from bad good u c1 c2 [unfolded g] c3 show ?thesis
    by (simp add: order_body_amount_zero)
qed

text \<open>
  C8. For a card payment carrying \<open>cardDetails\<close> on an existing order: a card number
  ending in \<open>0000\<close> gives 201 with a transaction of status \<open>failed\<close> and failure reason
  \<open>Card declined by issuer\<close>; a card number ending in \<open>4242\<close> gives 201 with a
  transaction of status \<open>success\<close>; and a webhook dispatch is started only for an order
  that the event has put into a terminal status, never for an id that is no v2 order.
\<close>

theorem process_payment_card:
  assumes "processPaymentSchema reqbody = Some d"
    and "paymentMethod d = ''card''"
    and "cardDetails d = Some cd"
    and "\<not> order_not_found st (orderId d)"
  shows
    "((\<exists>pre. cardNumber cd = pre @ ''0000'') \<longrightarrow>
        fst (fst (process_payment stringify env st reqbody)) = 201 \<and>
        map_option txn_status (txn_of (fst (process_payment stringify env st reqbody))) = Some ''failed'' \<and>
        map_option txn_failureReason (txn_of (fst (process_payment stringify env st reqbody))) =
          Some (Some ''Card declined by issuer'')) \<and>
     ((\<exists>pre. cardNumber cd = pre @ ''4242'') \<longrightarrow>
        fst (fst (process_payment stringify env st reqbody)) = 201 \<and>
        map_option txn_status (txn_of (fst (process_payment stringify env st reqbody))) = Some ''success'') \<and>
     (snd (snd (process_payment stringify env st reqbody)) \<noteq> None \<longrightarrow>
        status_of (fst (snd (process_payment stringify env st reqbody))) (orderId d) = Some ''COMPLETED'' \<or>
        status_of (fst (snd (process_payment stringify env st reqbody))) (orderId d) = Some ''FAILED'') \<and>
     (v2orders st (orderId d) = None \<longrightarrow>
        snd (snd (process_payment stringify env st reqbody)) = None)"
proof (intro conjI impI)
  note out = compute_outcome_card [OF assms(2,3), of st]
  {
    assume "\<exists>pre. cardNumber cd = pre @ ''0000''"
    then have "slice_last4 (cardNumber cd) = ''0000''"
      by (auto simp: slice_last4_append)
    with out have "compute_outcome st d = Outcome ''failed'' (Some ''Card declined by issuer'') None st"
      by simp
    from process_payment_outcome(1) [OF assms(1,4) this]
    show "fst (fst (process_payment stringify env st reqbody)) = 201"
      and "map_option txn_status (txn_of (fst (process_payment stringify env st reqbody))) = Some ''failed''"
      and "map_option txn_failureReason (txn_of (fst (process_payment stringify env st reqbody))) =
          Some (Some ''Card declined by issuer'')"
      by (simp_all add: txn_of_def)
  }
  {
    assume "\<exists>pre. cardNumber cd = pre @ ''4242''"
    then have "slice_last4 (cardNumber cd) = ''4242''"
      by (auto simp: slice_last4_append)
    with out have "compute_outcome st d = Outcome ''success'' None None st"
      by simp
    from process_payment_outcome(1) [OF assms(1,4) this]
    show "fst (fst (process_payment stringify env st reqbody)) = 201"
      and "map_option txn_status (txn_of (fst (process_payment stringify env st reqbody))) = Some ''success''"
      by (simp_all add: txn_of_def)
  }
  {
    assume "snd (snd (process_payment stringify env st reqbody)) \<noteq> None"
    from process_payment_dispatch_terminal [OF this] assms(1)
    show "status_of (fst (snd (process_payment stringify env st reqbody))) (orderId d) = Some ''COMPLETED'' \<or>
        status_of (fst (snd (process_payment stringify env st reqbody))) (orderId d) = Some ''FAILED''"
      by auto
  }
  {
    assume none: "v2orders st (orderId d) = None"
    show "snd (snd (process_payment stringify env st reqbody)) = None"
    proof (rule ccontr)
      assume "snd (snd (process_payment stringify env st reqbody)) \<noteq> None"
      from process_payment_dispatch_terminal [OF this] assms(1) none show False
        by auto
    qed
  }
qed

theorem process_payment_card_witness:
  "\<not> order_not_found example_storage ''gw_1a2b3c4d'' \<and>
   fst (fst (process_payment example_stringify example_env example_storage
     (card_body ''gw_1a2b3c4d'' ''4000000000000000''))) = 201 \<and>
   map_option txn_status (txn_of (fst (process_payment example_stringify example_env example_storage
     (card_body ''gw_1a2b3c4d'' ''4000000000000000'')))) = Some ''failed'' \<and>
   map_option txn_failureReason (txn_of (fst (process_payment example_stringify example_env example_storage
     (card_body ''gw_1a2b3c4d'' ''4000000000000000'')))) = Some (Some ''Card declined by issuer'') \<and>
   map_option txn_status (txn_of (fst (process_payment example_stringify example_env example_storage
     (card_body ''gw_1a2b3c4d'' ''4242424242424242'')))) = Some ''success'' \<and>
   snd (snd (process_payment example_stringify example_env example_storage
     (card_body ''gw_1a2b3c4d'' ''4242424242424242''))) \<noteq> None \<and>
   (status_of (fst (snd (process_payment example_stringify example_env example_storage
      (card_body ''gw_1a2b3c4d'' ''4242424242424242'')))) ''gw_1a2b3c4d'' = Some ''COMPLETED'' \<or>
    status_of (fst (snd (process_payment example_stringify example_env example_storage
      (card_body ''gw_1a2b3c4d'' ''4242424242424242'')))) ''gw_1a2b3c4d'' = Some ''FAILED'') \<and>
   \<not> order_not_found example_storage ''ORD_1A2B3C4D'' \<and>
   v2orders example_storage ''ORD_1A2B3C4D'' = None \<and>
   snd (snd (process_payment example_stringify example_env example_storage
     (card_body ''ORD_1A2B3C4D'' ''4242424242424242''))) = None"
proof -
  let ?cd = "\<lambda>num. \<lparr>cardNumber = num, expiry = ''12/30'', cvv = ''123'', cardHolderName = ''Test''\<rparr>"
  let ?d = "\<lambda>oid num. \<lparr>orderId = oid, amount = 49900, paymentMethod = ''card'', bankAccountId = None,
           cardDetails = Some (?cd num), upiId = None\<rparr>"
  have declined: "\<exists>pre. cardNumber (?cd ''4000000000000000'') = pre @ ''0000''"
    by (rule exI [of _ "''400000000000''"]) simp
  have good: "\<exists>pre. cardNumber (?cd ''4242424242424242'') = pre @ ''4242''"
    by (rule exI [of _ "''424242424242''"]) simp
  have out: "compute_outcome example_storage (?d ''gw_1a2b3c4d'' ''4242424242424242'') =
      Outcome ''success'' None None example_storage"
    by (simp add: compute_outcome_card slice_last4_def)
  have f1: "\<not> order_not_found example_storage (orderId (?d ''gw_1a2b3c4d'' ''4000000000000000''))"
    and f2: "\<not> order_not_found example_storage (orderId (?d ''gw_1a2b3c4d'' ''4242424242424242''))"
    and f3: "\<not> order_not_found example_storage (orderId (?d ''ORD_1A2B3C4D'' ''4242424242424242''))"
    by (simp_all add: example_found)
  have v2: "v2orders example_storage (orderId (?d ''gw_1a2b3c4d'' ''4242424242424242'')) = Some example_v2order"
    by (simp add: example_lookup)
  have disp: "snd (snd (process_payment example_stringify example_env example_storage
     (card_body ''gw_1a2b3c4d'' ''4242424242424242''))) \<noteq> None"
    using process_payment_outcome(3) [OF card_body_parsed f2 out v2] by simp
  from process_payment_card [OF card_body_parsed _ _ f1, of "?cd ''4000000000000000''"
      example_stringify example_env]
    process_payment_card [OF card_body_parsed _ _ f2, of "?cd ''4242424242424242''"
      example_stringify example_env]
    process_payment_card [OF card_body_parsed _ _ f3, of "?cd ''4242424242424242''"
      example_stringify example_env]
    declined good disp example_found example_lookup
  show ?thesis by simp
qed

text \<open>
  C10. When the request body passes \<open>processPaymentSchema\<close> without the property that
  belongs to its method (\<open>card\<close> without \<open>cardDetails\<close>, \<open>upi\<close> without \<open>upiId\<close>,
  \<open>netbanking\<close> without \<open>bankAccountId\<close>) and the order exists, the answer is 201 with
  a transaction of status \<open>success\<close> and no failure reason.
\<close>

theorem process_payment_without_details:
  assumes "processPaymentSchema (JObj fs) = Some d"
    and "\<not> order_not_found st (orderId d)"
    and "(paymentMethod d = ''card'' \<and> map_of fs ''cardDetails'' = None) \<or>
         (paymentMethod d = ''upi'' \<and> map_of fs ''upiId'' = None) \<or>
         (paymentMethod d = ''netbanking'' \<and> map_of fs ''bankAccountId'' = None)"
  shows "fst (fst (process_payment stringify env st (JObj fs))) = 201 \<and>
         map_option txn_status (txn_of (fst (process_payment stringify env st (JObj fs)))) = Some ''success'' \<and>
         map_option txn_failureReason (txn_of (fst (process_payment stringify env st (JObj fs)))) = Some None"
proof -
  from assms(1) have
    "(map_of fs ''cardDetails'' = None \<longrightarrow> cardDetails d = None) \<and>
     (map_of fs ''upiId'' = None \<longrightarrow> upiId d = None) \<and>
     (map_of fs ''bankAccountId'' = None \<longrightarrow> bankAccountId d = None)"
    by (auto simp: processPaymentSchema_def z_object_def z_optional_def
        split: Option.bind_splits option.splits)
  with assms(3) have
    "(paymentMethod d = ''card'' \<and> cardDetails d = None) \<or>
     (paymentMethod d = ''upi'' \<and> upiId d = None) \<or>
     (paymentMethod d = ''netbanking'' \<and> bankAccountId d = None)"
    by blast
  then have "compute_outcome st d = Outcome ''success'' None None st"
    by (rule compute_outcome_no_details)
  from process_payment_outcome(1) [OF assms(1,2) this] show ?thesis
    by (simp add: txn_of_def)
qed

theorem process_payment_without_details_witness:
  "processPaymentSchema (bare_body ''ORD_1A2B3C4D'' ''card'') =
     Some \<lparr>orderId = ''ORD_1A2B3C4D'', amount = 49900, paymentMethod = ''card'', bankAccountId = None,
           cardDetails = None, upiId = None\<rparr> \<and>
   \<not> order_not_found example_storage ''ORD_1A2B3C4D'' \<and>
   fst (fst (process_payment example_stringify example_env example_storage
     (bare_body ''ORD_1A2B3C4D'' ''card''))) = 201 \<and>
   map_option txn_status (txn_of (fst (process_payment example_stringify example_env example_storage
     (bare_body ''ORD_1A2B3C4D'' ''card'')))) = Some ''success'' \<and>
   map_option txn_failureReason (txn_of (fst (process_payment example_stringify example_env example_storage
     (bare_body ''ORD_1A2B3C4D'' ''card'')))) = Some None \<and>
   map_option txn_status (txn_of (fst (process_payment example_stringify example_env example_storage
     (bare_body ''ORD_1A2B3C4D'' ''upi'')))) = Some ''success'' \<and>
   map_option txn_failureReason (txn_of (fst (process_payment example_stringify example_env example_storage
     (bare_body ''ORD_1A2B3C4D'' ''upi'')))) = Some None \<and>
   map_option txn_status (txn_of (fst (process_payment example_stringify example_env example_storage
     (bare_body ''ORD_1A2B3C4D'' ''netbanking'')))) = Some ''success'' \<and>
   map_option txn_failureReason (txn_of (fst (process_payment example_stringify example_env example_storage
     (bare_body ''ORD_1A2B3C4D'' ''netbanking'')))) = Some None"
proof -
  let ?fs = "\<lambda>pm. [(''orderId'', JStr ''ORD_1A2B3C4D''), (''amount'', JNum 49900),
              (''paymentMethod'', JStr pm)]"
  let ?d = "\<lambda>pm. \<lparr>orderId = ''ORD_1A2B3C4D'', amount = 49900, paymentMethod = pm,
             bankAccountId = None, cardDetails = None, upiId = None\<rparr>"
  have body: "bare_body ''ORD_1A2B3C4D'' pm = JObj (?fs pm)" for pm
    by (simp add: bare_body_def)
  have parsed: "processPaymentSchema (JObj (?fs pm)) = Some (?d pm)"
    if "pm \<in> set [''card'', ''upi'', ''netbanking'']" for pm
    using bare_body_parsed [OF that, of "''ORD_1A2B3C4D''"] by (simp add: body)
  have found: "\<not> order_not_found example_storage (orderId (?d pm))" for pm
    by (simp add: example_found)
  have omitted:
    "(paymentMethod (?d pm) = ''card'' \<and> map_of (?fs pm) ''cardDetails'' = None) \<or>
     (paymentMethod (?d pm) = ''upi'' \<and> map_of (?fs pm) ''upiId'' = None) \<or>
     (paymentMethod (?d pm) = ''netbanking'' \<and> map_of (?fs pm) ''bankAccountId'' = None)"
    if "pm \<in> set [''card'', ''upi'', ''netbanking'']" for pm
    using that by auto
  have m: "''card'' \<in> set [''card'', ''upi'', ''netbanking'']"
    "''upi'' \<in> set [''card'', ''upi'', ''netbanking'']"
    "''netbanking'' \<in> set [''card'', ''upi'', ''netbanking'']"
    by simp_all
  from process_payment_without_details [OF parsed [OF m(1)] found omitted [OF m(1)],
      of example_stringify example_env]
    process_payment_without_details [OF parsed [OF m(2)] found omitted [OF m(2)],
      of example_stringify example_env]
    process_payment_without_details [OF parsed [OF m(3)] found omitted [OF m(3)],
      of example_stringify example_env]
    parsed [OF m(1)] example_found(2)
  show ?thesis by (simp add: body)
qed

end
